theory Spec2Isabelle
  imports Complex_Main
begin

section \<open>StoryCrafter actions: data model\<close>

text \<open>
  The source is \<^verbatim>\<open>src/actions/index.ts\<close>: fifteen actions over four tables
  (Stories, StoryActs, StoryChapters, StoryScenes). A JavaScript \<^verbatim>\<open>Date\<close> is its
  millisecond count, a \<^verbatim>\<open>number\<close> is the rational it denotes, and a value that may be
  \<^verbatim>\<open>undefined\<close> or \<^verbatim>\<open>null\<close> is an option.
\<close>

type_synonym date = int
type_synonym number = rat

subsection \<open>Rows of the four tables\<close>

record story_row =
  story_id :: string
  story_userId :: string
  story_title :: string
  story_logline :: "string option"
  story_genre :: "string option"
  story_targetAudience :: "string option"
  story_status :: "string option"
  story_notes :: "string option"
  story_createdAt :: date
  story_updatedAt :: date

record act_row =
  act_id :: string
  act_storyId :: string
  act_orderIndex :: number
  act_title :: "string option"
  act_summary :: "string option"
  act_createdAt :: date

record chapter_row =
  chapter_id :: string
  chapter_storyId :: string
  chapter_actId :: "string option"
  chapter_orderIndex :: number
  chapter_title :: "string option"
  chapter_povCharacter :: "string option"
  chapter_summary :: "string option"
  chapter_createdAt :: date
  chapter_updatedAt :: date

record scene_row =
  scene_id :: string
  scene_storyId :: string
  scene_chapterId :: "string option"
  scene_orderIndex :: number
  scene_setting :: "string option"
  scene_goal :: "string option"
  scene_conflict :: "string option"
  scene_outcome :: "string option"
  scene_content :: "string option"
  scene_createdAt :: date
  scene_updatedAt :: date

text \<open>
  The datastore: the rows of each table in insertion order, and the number of mutating
  statements (insert, update, delete) it has executed so far. The store executes each
  statement as it is issued; the engine's own constraint checks are not part of the
  actions' code and are not modelled.
\<close>

record db =
  stories :: "story_row list"
  storyActs :: "act_row list"
  storyChapters :: "chapter_row list"
  storyScenes :: "scene_row list"
  executed :: nat

subsection \<open>Request context and ambient values\<close>

record user =
  user_id :: string

record app_locals =
  locals_user :: "user option"

record api_context =
  locals :: "app_locals option"

text \<open>What \<^verbatim>\<open>crypto.randomUUID()\<close> and \<^verbatim>\<open>new Date()\<close> return during the request
  (each handler calls either at most once).\<close>

record env =
  randomUUID :: string
  newDate :: date

subsection \<open>Errors and results\<close>

datatype error_code = UNAUTHORIZED | NOT_FOUND

text \<open>An issue of the input schema: a string shorter than its minimum, a number that is
  not an integer (each with the field it was found at), or a failed refinement with its
  message.\<close>

datatype issue = TooSmall string | NotInteger string | Custom string

datatype error = ActionError error_code string | ActionInputError "issue list"

text \<open>The \<^verbatim>\<open>data\<close> of a successful result; a row destructured from a returned array
  (\<^verbatim>\<open>const [story] = ...\<close>) is absent when the array is empty.\<close>

datatype data =
    StoryData "story_row option"
  | ActData "act_row option"
  | ChapterData "chapter_row option"
  | SceneData "scene_row option"
  | StoryItems "story_row list" nat
  | ActItems "act_row list" nat
  | ChapterItems "chapter_row list" nat
  | SceneItems "scene_row list" nat
  | NoData

subsection \<open>Asynchronous computations over the datastore\<close>

type_synonym 'a promise = "db \<Rightarrow> (error + 'a) \<times> db"

definition resolve :: "'a \<Rightarrow> 'a promise" where
  "resolve x = (\<lambda>d. (Inr x, d))"

definition throw :: "error \<Rightarrow> 'a promise" where
  "throw e = (\<lambda>d. (Inl e, d))"

definition await :: "'a promise \<Rightarrow> ('a \<Rightarrow> 'b promise) \<Rightarrow> 'b promise" where
  "await m f = (\<lambda>d. case m d of (Inl e, d') \<Rightarrow> (Inl e, d') | (Inr x, d') \<Rightarrow> f x d')"

fun first :: "'a list \<Rightarrow> 'a option" where
  "first [] = None"
| "first (x # xs) = Some x"

subsection \<open>Statements of the datastore\<close>

text \<open>A table is named by the pair of its reader and its updater in the store.\<close>

type_synonym 'r table = "(db \<Rightarrow> 'r list) \<times> (('r list \<Rightarrow> 'r list) \<Rightarrow> db \<Rightarrow> db)"

definition Stories :: "story_row table" where
  "Stories = (stories, stories_update)"

definition StoryActs :: "act_row table" where
  "StoryActs = (storyActs, storyActs_update)"

definition StoryChapters :: "chapter_row table" where
  "StoryChapters = (storyChapters, storyChapters_update)"

definition StoryScenes :: "scene_row table" where
  "StoryScenes = (storyScenes, storyScenes_update)"

definition mutate :: "'r table \<Rightarrow> ('r list \<Rightarrow> 'r list) \<Rightarrow> db \<Rightarrow> db" where
  "mutate t f d = (snd t f d)\<lparr>executed := Suc (executed d)\<rparr>"

text \<open>\<^verbatim>\<open>db.select().from(t).where(w)\<close>\<close>

definition db_select :: "'r table \<Rightarrow> ('r \<Rightarrow> bool) \<Rightarrow> 'r list promise" where
  "db_select t w = (\<lambda>d. (Inr (filter w (fst t d)), d))"

text \<open>\<^verbatim>\<open>db.insert(t).values(row).returning()\<close>\<close>

definition db_insert :: "'r table \<Rightarrow> 'r \<Rightarrow> 'r list promise" where
  "db_insert t row = (\<lambda>d. (Inr [row], mutate t (\<lambda>rows. rows @ [row]) d))"

text \<open>\<^verbatim>\<open>db.update(t).set(s).where(w).returning()\<close>\<close>

definition db_update :: "'r table \<Rightarrow> ('r \<Rightarrow> 'r) \<Rightarrow> ('r \<Rightarrow> bool) \<Rightarrow> 'r list promise" where
  "db_update t s w =
     (\<lambda>d. (Inr (map s (filter w (fst t d))), mutate t (map (\<lambda>r. if w r then s r else r)) d))"

text \<open>\<^verbatim>\<open>db.delete(t).where(w)\<close>\<close>

definition db_delete :: "'r table \<Rightarrow> ('r \<Rightarrow> bool) \<Rightarrow> unit promise" where
  "db_delete t w = (\<lambda>d. (Inr (), mutate t (filter (\<lambda>r. \<not> w r)) d))"

section \<open>Input schemas\<close>

text \<open>
  The payload of each action, at the type its schema declares: a required field is a
  value, a field declared \<^verbatim>\<open>.optional()\<close> is an option (\<open>None\<close> is \<^verbatim>\<open>undefined\<close>; a
  schema \<^verbatim>\<open>z.string().optional()\<close> admits no \<^verbatim>\<open>null\<close>).
\<close>

record createStory_payload =
  cs_title :: string
  cs_logline :: "string option"
  cs_genre :: "string option"
  cs_targetAudience :: "string option"
  cs_status :: "string option"
  cs_notes :: "string option"

record updateStory_payload =
  us_id :: string
  us_title :: "string option"
  us_logline :: "string option"
  us_genre :: "string option"
  us_targetAudience :: "string option"
  us_status :: "string option"
  us_notes :: "string option"

record createStoryAct_payload =
  ca_storyId :: string
  ca_orderIndex :: "number option"
  ca_title :: "string option"
  ca_summary :: "string option"

record updateStoryAct_payload =
  ua_id :: string
  ua_storyId :: string
  ua_orderIndex :: "number option"
  ua_title :: "string option"
  ua_summary :: "string option"

record deleteStoryAct_payload =
  da_id :: string
  da_storyId :: string

record listStoryActs_payload =
  la_storyId :: string

record createStoryChapter_payload =
  cc_storyId :: string
  cc_actId :: "string option"
  cc_orderIndex :: "number option"
  cc_title :: "string option"
  cc_povCharacter :: "string option"
  cc_summary :: "string option"

record updateStoryChapter_payload =
  uc_id :: string
  uc_storyId :: string
  uc_actId :: "string option"
  uc_orderIndex :: "number option"
  uc_title :: "string option"
  uc_povCharacter :: "string option"
  uc_summary :: "string option"

record deleteStoryChapter_payload =
  dc_id :: string
  dc_storyId :: string

record listStoryChapters_payload =
  lc_storyId :: string
  lc_actId :: "string option"

record createStoryScene_payload =
  cn_storyId :: string
  cn_chapterId :: "string option"
  cn_orderIndex :: "number option"
  cn_setting :: "string option"
  cn_goal :: "string option"
  cn_conflict :: "string option"
  cn_outcome :: "string option"
  cn_content :: "string option"

record updateStoryScene_payload =
  un_id :: string
  un_storyId :: string
  un_chapterId :: "string option"
  un_orderIndex :: "number option"
  un_setting :: "string option"
  un_goal :: "string option"
  un_conflict :: "string option"
  un_outcome :: "string option"
  un_content :: "string option"

record deleteStoryScene_payload =
  dn_id :: string
  dn_storyId :: string

record listStoryScenes_payload =
  ln_storyId :: string
  ln_chapterId :: "string option"

subsection \<open>Schema checks\<close>

text \<open>\<^verbatim>\<open>z.string().min(1)\<close> at the field \<open>path\<close>\<close>

definition min1 :: "string \<Rightarrow> string \<Rightarrow> issue list" where
  "min1 path s = (if 1 \<le> length s then [] else [TooSmall path])"

text \<open>\<^verbatim>\<open>z.number().int()\<close>: \<^verbatim>\<open>Number.isInteger\<close>\<close>

definition isInteger :: "number \<Rightarrow> bool" where
  "isInteger r = (of_int \<lfloor>r\<rfloor> = r)"

definition int_check :: "string \<Rightarrow> number \<Rightarrow> issue list" where
  "int_check path r = (if isInteger r then [] else [NotInteger path])"

text \<open>\<^verbatim>\<open>.optional()\<close>: an absent value has no issue\<close>

fun optional :: "('a \<Rightarrow> issue list) \<Rightarrow> 'a option \<Rightarrow> issue list" where
  "optional chk None = []"
| "optional chk (Some x) = chk x"

text \<open>\<^verbatim>\<open>.refine(ok, { message })\<close>, run after the fields' own checks\<close>

definition refine :: "bool \<Rightarrow> string \<Rightarrow> issue list" where
  "refine ok message = (if ok then [] else [Custom message])"

definition at_least_one :: string where
  "at_least_one = ''At least one field must be provided to update.''"

definition createStory_input :: "createStory_payload \<Rightarrow> issue list" where
  "createStory_input i = min1 ''title'' (cs_title i)"

definition updateStory_input :: "updateStory_payload \<Rightarrow> issue list" where
  "updateStory_input i =
     min1 ''id'' (us_id i) @ optional (min1 ''title'') (us_title i) @
     refine (us_title i \<noteq> None \<or> us_logline i \<noteq> None \<or> us_genre i \<noteq> None \<or>
             us_targetAudience i \<noteq> None \<or> us_status i \<noteq> None \<or> us_notes i \<noteq> None)
       at_least_one"

definition createStoryAct_input :: "createStoryAct_payload \<Rightarrow> issue list" where
  "createStoryAct_input i =
     min1 ''storyId'' (ca_storyId i) @ optional (int_check ''orderIndex'') (ca_orderIndex i)"

definition updateStoryAct_input :: "updateStoryAct_payload \<Rightarrow> issue list" where
  "updateStoryAct_input i =
     min1 ''id'' (ua_id i) @ min1 ''storyId'' (ua_storyId i) @
     optional (int_check ''orderIndex'') (ua_orderIndex i) @
     refine (ua_orderIndex i \<noteq> None \<or> ua_title i \<noteq> None \<or> ua_summary i \<noteq> None)
       at_least_one"

definition deleteStoryAct_input :: "deleteStoryAct_payload \<Rightarrow> issue list" where
  "deleteStoryAct_input i = min1 ''id'' (da_id i) @ min1 ''storyId'' (da_storyId i)"

definition listStoryActs_input :: "listStoryActs_payload \<Rightarrow> issue list" where
  "listStoryActs_input i = min1 ''storyId'' (la_storyId i)"

definition createStoryChapter_input :: "createStoryChapter_payload \<Rightarrow> issue list" where
  "createStoryChapter_input i =
     min1 ''storyId'' (cc_storyId i) @ optional (int_check ''orderIndex'') (cc_orderIndex i)"

definition updateStoryChapter_input :: "updateStoryChapter_payload \<Rightarrow> issue list" where
  "updateStoryChapter_input i =
     min1 ''id'' (uc_id i) @ min1 ''storyId'' (uc_storyId i) @
     optional (int_check ''orderIndex'') (uc_orderIndex i) @
     refine (uc_actId i \<noteq> None \<or> uc_orderIndex i \<noteq> None \<or> uc_title i \<noteq> None \<or>
             uc_povCharacter i \<noteq> None \<or> uc_summary i \<noteq> None)
       at_least_one"

definition deleteStoryChapter_input :: "deleteStoryChapter_payload \<Rightarrow> issue list" where
  "deleteStoryChapter_input i = min1 ''id'' (dc_id i) @ min1 ''storyId'' (dc_storyId i)"

definition listStoryChapters_input :: "listStoryChapters_payload \<Rightarrow> issue list" where
  "listStoryChapters_input i = min1 ''storyId'' (lc_storyId i)"

definition createStoryScene_input :: "createStoryScene_payload \<Rightarrow> issue list" where
  "createStoryScene_input i =
     min1 ''storyId'' (cn_storyId i) @ optional (int_check ''orderIndex'') (cn_orderIndex i)"

definition updateStoryScene_input :: "updateStoryScene_payload \<Rightarrow> issue list" where
  "updateStoryScene_input i =
     min1 ''id'' (un_id i) @ min1 ''storyId'' (un_storyId i) @
     optional (int_check ''orderIndex'') (un_orderIndex i) @
     refine (un_chapterId i \<noteq> None \<or> un_orderIndex i \<noteq> None \<or> un_setting i \<noteq> None \<or>
             un_goal i \<noteq> None \<or> un_conflict i \<noteq> None \<or> un_outcome i \<noteq> None \<or>
             un_content i \<noteq> None)
       at_least_one"

definition deleteStoryScene_input :: "deleteStoryScene_payload \<Rightarrow> issue list" where
  "deleteStoryScene_input i = min1 ''id'' (dn_id i) @ min1 ''storyId'' (dn_storyId i)"

definition listStoryScenes_input :: "listStoryScenes_payload \<Rightarrow> issue list" where
  "listStoryScenes_input i = min1 ''storyId'' (ln_storyId i)"

text \<open>
  \<^verbatim>\<open>defineAction({ input, handler })\<close>: the payload is parsed against the schema first;
  with issues the action fails with them and the handler is not called, otherwise the
  handler runs on the parsed payload.
\<close>

definition defineAction ::
  "('i \<Rightarrow> issue list) \<Rightarrow> ('i \<Rightarrow> api_context \<Rightarrow> env \<Rightarrow> data promise) \<Rightarrow>
   'i \<Rightarrow> api_context \<Rightarrow> env \<Rightarrow> data promise" where
  "defineAction input handler i ctx e =
     (case input i of [] \<Rightarrow> handler i ctx e | issues \<Rightarrow> throw (ActionInputError issues))"

section \<open>Identity and ownership\<close>

text \<open>\<^verbatim>\<open>locals?.user\<close>\<close>

definition currentUser :: "api_context \<Rightarrow> user option" where
  "currentUser ctx = (case locals ctx of None \<Rightarrow> None | Some l \<Rightarrow> locals_user l)"

definition requireUser :: "api_context \<Rightarrow> user promise" where
  "requireUser ctx =
     (case currentUser ctx of
        None \<Rightarrow> throw (ActionError UNAUTHORIZED ''You must be signed in to perform this action.'')
      | Some u \<Rightarrow> resolve u)"

definition getOwnedStory :: "string \<Rightarrow> string \<Rightarrow> story_row promise" where
  "getOwnedStory storyId userId =
     await (db_select Stories (\<lambda>s. story_id s = storyId \<and> story_userId s = userId)) (\<lambda>rows.
     case first rows of
       None \<Rightarrow> throw (ActionError NOT_FOUND ''Story not found.'')
     | Some story \<Rightarrow> resolve story)"

definition getOwnedAct :: "string \<Rightarrow> string \<Rightarrow> string \<Rightarrow> act_row promise" where
  "getOwnedAct actId storyId userId =
     await (getOwnedStory storyId userId) (\<lambda>_.
     await (db_select StoryActs (\<lambda>a. act_id a = actId \<and> act_storyId a = storyId)) (\<lambda>rows.
     case first rows of
       None \<Rightarrow> throw (ActionError NOT_FOUND ''Act not found.'')
     | Some act \<Rightarrow> resolve act))"

definition getOwnedChapter :: "string \<Rightarrow> string \<Rightarrow> string \<Rightarrow> chapter_row promise" where
  "getOwnedChapter chapterId storyId userId =
     await (getOwnedStory storyId userId) (\<lambda>_.
     await (db_select StoryChapters
              (\<lambda>c. chapter_id c = chapterId \<and> chapter_storyId c = storyId)) (\<lambda>rows.
     case first rows of
       None \<Rightarrow> throw (ActionError NOT_FOUND ''Chapter not found.'')
     | Some chapter \<Rightarrow> resolve chapter))"

definition getOwnedScene :: "string \<Rightarrow> string \<Rightarrow> string \<Rightarrow> scene_row promise" where
  "getOwnedScene sceneId storyId userId =
     await (getOwnedStory storyId userId) (\<lambda>_.
     await (db_select StoryScenes (\<lambda>n. scene_id n = sceneId \<and> scene_storyId n = storyId)) (\<lambda>rows.
     case first rows of
       None \<Rightarrow> throw (ActionError NOT_FOUND ''Scene not found.'')
     | Some scene \<Rightarrow> resolve scene))"

text \<open>JavaScript truthiness of an optional string, as in \<^verbatim>\<open>if (input.actId)\<close>: \<^verbatim>\<open>undefined\<close>
  and the empty string are falsy.\<close>

fun truthy :: "string option \<Rightarrow> bool" where
  "truthy None = False"
| "truthy (Some s) = (s \<noteq> [])"

text \<open>\<^verbatim>\<open>if (v) { await f(v) }\<close>\<close>

definition if_truthy :: "string option \<Rightarrow> (string \<Rightarrow> 'a promise) \<Rightarrow> unit promise" where
  "if_truthy v f =
     (case v of
        None \<Rightarrow> resolve ()
      | Some s \<Rightarrow> if truthy (Some s) then await (f s) (\<lambda>_. resolve ()) else resolve ())"

text \<open>\<^verbatim>\<open>if (v !== undefined && v !== null) { await f(v) }\<close>\<close>

definition if_defined :: "'v option \<Rightarrow> ('v \<Rightarrow> 'a promise) \<Rightarrow> unit promise" where
  "if_defined v f =
     (case v of None \<Rightarrow> resolve () | Some s \<Rightarrow> await (f s) (\<lambda>_. resolve ()))"

text \<open>\<^verbatim>\<open>...(v !== undefined ? { field: v } : {})\<close> inside the object given to \<^verbatim>\<open>.set\<close>\<close>

fun spread :: "'a option \<Rightarrow> ('a \<Rightarrow> 'r \<Rightarrow> 'r) \<Rightarrow> 'r \<Rightarrow> 'r" where
  "spread None f r = r"
| "spread (Some v) f r = f v r"

section \<open>Story actions\<close>

text \<open>The object given to \<^verbatim>\<open>.values\<close>; an optional column given \<^verbatim>\<open>undefined\<close> is stored
  as absent.\<close>

definition createStory_values ::
  "createStory_payload \<Rightarrow> user \<Rightarrow> string \<Rightarrow> date \<Rightarrow> story_row" where
  "createStory_values input user uuid now =
     \<lparr>story_id = uuid,
      story_userId = user_id user,
      story_title = cs_title input,
      story_logline = cs_logline input,
      story_genre = cs_genre input,
      story_targetAudience = cs_targetAudience input,
      story_status = cs_status input,
      story_notes = cs_notes input,
      story_createdAt = now,
      story_updatedAt = now\<rparr>"

definition createStory_handler ::
  "createStory_payload \<Rightarrow> api_context \<Rightarrow> env \<Rightarrow> data promise" where
  "createStory_handler input ctx e =
     await (requireUser ctx) (\<lambda>user.
     let now = newDate e in
     await (db_insert Stories (createStory_values input user (randomUUID e) now)) (\<lambda>rows.
     resolve (StoryData (first rows))))"

definition updateStory_set :: "updateStory_payload \<Rightarrow> date \<Rightarrow> story_row \<Rightarrow> story_row" where
  "updateStory_set input now r =
     (let r = spread (us_title input) (\<lambda>v r. r\<lparr>story_title := v\<rparr>) r;
          r = spread (us_logline input) (\<lambda>v r. r\<lparr>story_logline := Some v\<rparr>) r;
          r = spread (us_genre input) (\<lambda>v r. r\<lparr>story_genre := Some v\<rparr>) r;
          r = spread (us_targetAudience input) (\<lambda>v r. r\<lparr>story_targetAudience := Some v\<rparr>) r;
          r = spread (us_status input) (\<lambda>v r. r\<lparr>story_status := Some v\<rparr>) r;
          r = spread (us_notes input) (\<lambda>v r. r\<lparr>story_notes := Some v\<rparr>) r
      in r\<lparr>story_updatedAt := now\<rparr>)"

definition updateStory_handler ::
  "updateStory_payload \<Rightarrow> api_context \<Rightarrow> env \<Rightarrow> data promise" where
  "updateStory_handler input ctx e =
     await (requireUser ctx) (\<lambda>user.
     await (getOwnedStory (us_id input) (user_id user)) (\<lambda>_.
     await (db_update Stories (updateStory_set input (newDate e))
              (\<lambda>s. story_id s = us_id input)) (\<lambda>rows.
     resolve (StoryData (first rows)))))"

definition listStories_handler :: "unit \<Rightarrow> api_context \<Rightarrow> env \<Rightarrow> data promise" where
  "listStories_handler input ctx e =
     await (requireUser ctx) (\<lambda>user.
     await (db_select Stories (\<lambda>s. story_userId s = user_id user)) (\<lambda>stories.
     resolve (StoryItems stories (length stories))))"

section \<open>Act actions\<close>

definition createStoryAct_values :: "createStoryAct_payload \<Rightarrow> string \<Rightarrow> date \<Rightarrow> act_row" where
  "createStoryAct_values input uuid now =
     \<lparr>act_id = uuid,
      act_storyId = ca_storyId input,
      act_orderIndex = (case ca_orderIndex input of None \<Rightarrow> 1 | Some n \<Rightarrow> n),
      act_title = ca_title input,
      act_summary = ca_summary input,
      act_createdAt = now\<rparr>"

definition createStoryAct_handler ::
  "createStoryAct_payload \<Rightarrow> api_context \<Rightarrow> env \<Rightarrow> data promise" where
  "createStoryAct_handler input ctx e =
     await (requireUser ctx) (\<lambda>user.
     await (getOwnedStory (ca_storyId input) (user_id user)) (\<lambda>_.
     await (db_insert StoryActs
              (createStoryAct_values input (randomUUID e) (newDate e))) (\<lambda>rows.
     resolve (ActData (first rows)))))"

definition updateStoryAct_set :: "updateStoryAct_payload \<Rightarrow> act_row \<Rightarrow> act_row" where
  "updateStoryAct_set input r =
     (let r = spread (ua_orderIndex input) (\<lambda>v r. r\<lparr>act_orderIndex := v\<rparr>) r;
          r = spread (ua_title input) (\<lambda>v r. r\<lparr>act_title := Some v\<rparr>) r;
          r = spread (ua_summary input) (\<lambda>v r. r\<lparr>act_summary := Some v\<rparr>) r
      in r)"

definition updateStoryAct_handler ::
  "updateStoryAct_payload \<Rightarrow> api_context \<Rightarrow> env \<Rightarrow> data promise" where
  "updateStoryAct_handler input ctx e =
     await (requireUser ctx) (\<lambda>user.
     await (getOwnedAct (ua_id input) (ua_storyId input) (user_id user)) (\<lambda>_.
     await (db_update StoryActs (updateStoryAct_set input)
              (\<lambda>a. act_id a = ua_id input)) (\<lambda>rows.
     resolve (ActData (first rows)))))"

definition deleteStoryAct_handler ::
  "deleteStoryAct_payload \<Rightarrow> api_context \<Rightarrow> env \<Rightarrow> data promise" where
  "deleteStoryAct_handler input ctx e =
     await (requireUser ctx) (\<lambda>user.
     await (getOwnedAct (da_id input) (da_storyId input) (user_id user)) (\<lambda>_.
     await (db_delete StoryActs (\<lambda>a. act_id a = da_id input)) (\<lambda>_.
     resolve NoData)))"

definition listStoryActs_handler ::
  "listStoryActs_payload \<Rightarrow> api_context \<Rightarrow> env \<Rightarrow> data promise" where
  "listStoryActs_handler input ctx e =
     await (requireUser ctx) (\<lambda>user.
     await (getOwnedStory (la_storyId input) (user_id user)) (\<lambda>_.
     await (db_select StoryActs (\<lambda>a. act_storyId a = la_storyId input)) (\<lambda>acts.
     resolve (ActItems acts (length acts)))))"

section \<open>Chapter actions\<close>

definition createStoryChapter_values ::
  "createStoryChapter_payload \<Rightarrow> string \<Rightarrow> date \<Rightarrow> chapter_row" where
  "createStoryChapter_values input uuid now =
     \<lparr>chapter_id = uuid,
      chapter_storyId = cc_storyId input,
      chapter_actId = (case cc_actId input of None \<Rightarrow> None | Some a \<Rightarrow> Some a),
      chapter_orderIndex = (case cc_orderIndex input of None \<Rightarrow> 1 | Some n \<Rightarrow> n),
      chapter_title = cc_title input,
      chapter_povCharacter = cc_povCharacter input,
      chapter_summary = cc_summary input,
      chapter_createdAt = now,
      chapter_updatedAt = now\<rparr>"

definition createStoryChapter_handler ::
  "createStoryChapter_payload \<Rightarrow> api_context \<Rightarrow> env \<Rightarrow> data promise" where
  "createStoryChapter_handler input ctx e =
     await (requireUser ctx) (\<lambda>user.
     await (getOwnedStory (cc_storyId input) (user_id user)) (\<lambda>_.
     await (if_truthy (cc_actId input)
              (\<lambda>actId. getOwnedAct actId (cc_storyId input) (user_id user))) (\<lambda>_.
     let now = newDate e in
     await (db_insert StoryChapters
              (createStoryChapter_values input (randomUUID e) now)) (\<lambda>rows.
     resolve (ChapterData (first rows))))))"

definition updateStoryChapter_set ::
  "updateStoryChapter_payload \<Rightarrow> date \<Rightarrow> chapter_row \<Rightarrow> chapter_row" where
  "updateStoryChapter_set input now r =
     (let r = spread (uc_actId input) (\<lambda>v r. r\<lparr>chapter_actId := Some v\<rparr>) r;
          r = spread (uc_orderIndex input) (\<lambda>v r. r\<lparr>chapter_orderIndex := v\<rparr>) r;
          r = spread (uc_title input) (\<lambda>v r. r\<lparr>chapter_title := Some v\<rparr>) r;
          r = spread (uc_povCharacter input) (\<lambda>v r. r\<lparr>chapter_povCharacter := Some v\<rparr>) r;
          r = spread (uc_summary input) (\<lambda>v r. r\<lparr>chapter_summary := Some v\<rparr>) r
      in r\<lparr>chapter_updatedAt := now\<rparr>)"

definition updateStoryChapter_handler ::
  "updateStoryChapter_payload \<Rightarrow> api_context \<Rightarrow> env \<Rightarrow> data promise" where
  "updateStoryChapter_handler input ctx e =
     await (requireUser ctx) (\<lambda>user.
     await (getOwnedChapter (uc_id input) (uc_storyId input) (user_id user)) (\<lambda>_.
     await (if_defined (uc_actId input)
              (\<lambda>actId. getOwnedAct actId (uc_storyId input) (user_id user))) (\<lambda>_.
     await (db_update StoryChapters (updateStoryChapter_set input (newDate e))
              (\<lambda>c. chapter_id c = uc_id input)) (\<lambda>rows.
     resolve (ChapterData (first rows))))))"

definition deleteStoryChapter_handler ::
  "deleteStoryChapter_payload \<Rightarrow> api_context \<Rightarrow> env \<Rightarrow> data promise" where
  "deleteStoryChapter_handler input ctx e =
     await (requireUser ctx) (\<lambda>user.
     await (getOwnedChapter (dc_id input) (dc_storyId input) (user_id user)) (\<lambda>_.
     await (db_delete StoryChapters (\<lambda>c. chapter_id c = dc_id input)) (\<lambda>_.
     resolve NoData)))"

definition listStoryChapters_handler ::
  "listStoryChapters_payload \<Rightarrow> api_context \<Rightarrow> env \<Rightarrow> data promise" where
  "listStoryChapters_handler input ctx e =
     await (requireUser ctx) (\<lambda>user.
     await (getOwnedStory (lc_storyId input) (user_id user)) (\<lambda>_.
     await (if_truthy (lc_actId input)
              (\<lambda>actId. getOwnedAct actId (lc_storyId input) (user_id user))) (\<lambda>_.
     await (db_select StoryChapters
              (if truthy (lc_actId input)
               then (\<lambda>c. chapter_storyId c = lc_storyId input \<and> chapter_actId c = lc_actId input)
               else (\<lambda>c. chapter_storyId c = lc_storyId input))) (\<lambda>chapters.
     resolve (ChapterItems chapters (length chapters))))))"

section \<open>Scene actions\<close>

definition createStoryScene_values ::
  "createStoryScene_payload \<Rightarrow> string \<Rightarrow> date \<Rightarrow> scene_row" where
  "createStoryScene_values input uuid now =
     \<lparr>scene_id = uuid,
      scene_storyId = cn_storyId input,
      scene_chapterId = (case cn_chapterId input of None \<Rightarrow> None | Some c \<Rightarrow> Some c),
      scene_orderIndex = (case cn_orderIndex input of None \<Rightarrow> 1 | Some n \<Rightarrow> n),
      scene_setting = cn_setting input,
      scene_goal = cn_goal input,
      scene_conflict = cn_conflict input,
      scene_outcome = cn_outcome input,
      scene_content = cn_content input,
      scene_createdAt = now,
      scene_updatedAt = now\<rparr>"

definition createStoryScene_handler ::
  "createStoryScene_payload \<Rightarrow> api_context \<Rightarrow> env \<Rightarrow> data promise" where
  "createStoryScene_handler input ctx e =
     await (requireUser ctx) (\<lambda>user.
     await (getOwnedStory (cn_storyId input) (user_id user)) (\<lambda>_.
     await (if_truthy (cn_chapterId input)
              (\<lambda>chapterId. getOwnedChapter chapterId (cn_storyId input) (user_id user))) (\<lambda>_.
     let now = newDate e in
     await (db_insert StoryScenes
              (createStoryScene_values input (randomUUID e) now)) (\<lambda>rows.
     resolve (SceneData (first rows))))))"

definition updateStoryScene_set ::
  "updateStoryScene_payload \<Rightarrow> date \<Rightarrow> scene_row \<Rightarrow> scene_row" where
  "updateStoryScene_set input now r =
     (let r = spread (un_chapterId input) (\<lambda>v r. r\<lparr>scene_chapterId := Some v\<rparr>) r;
          r = spread (un_orderIndex input) (\<lambda>v r. r\<lparr>scene_orderIndex := v\<rparr>) r;
          r = spread (un_setting input) (\<lambda>v r. r\<lparr>scene_setting := Some v\<rparr>) r;
          r = spread (un_goal input) (\<lambda>v r. r\<lparr>scene_goal := Some v\<rparr>) r;
          r = spread (un_conflict input) (\<lambda>v r. r\<lparr>scene_conflict := Some v\<rparr>) r;
          r = spread (un_outcome input) (\<lambda>v r. r\<lparr>scene_outcome := Some v\<rparr>) r;
          r = spread (un_content input) (\<lambda>v r. r\<lparr>scene_content := Some v\<rparr>) r
      in r\<lparr>scene_updatedAt := now\<rparr>)"

definition updateStoryScene_handler ::
  "updateStoryScene_payload \<Rightarrow> api_context \<Rightarrow> env \<Rightarrow> data promise" where
  "updateStoryScene_handler input ctx e =
     await (requireUser ctx) (\<lambda>user.
     await (getOwnedScene (un_id input) (un_storyId input) (user_id user)) (\<lambda>_.
     await (if_defined (un_chapterId input)
              (\<lambda>chapterId. getOwnedChapter chapterId (un_storyId input) (user_id user))) (\<lambda>_.
     await (db_update StoryScenes (updateStoryScene_set input (newDate e))
              (\<lambda>n. scene_id n = un_id input)) (\<lambda>rows.
     resolve (SceneData (first rows))))))"

definition deleteStoryScene_handler ::
  "deleteStoryScene_payload \<Rightarrow> api_context \<Rightarrow> env \<Rightarrow> data promise" where
  "deleteStoryScene_handler input ctx e =
     await (requireUser ctx) (\<lambda>user.
     await (getOwnedScene (dn_id input) (dn_storyId input) (user_id user)) (\<lambda>_.
     await (db_delete StoryScenes (\<lambda>n. scene_id n = dn_id input)) (\<lambda>_.
     resolve NoData)))"

definition listStoryScenes_handler ::
  "listStoryScenes_payload \<Rightarrow> api_context \<Rightarrow> env \<Rightarrow> data promise" where
  "listStoryScenes_handler input ctx e =
     await (requireUser ctx) (\<lambda>user.
     await (getOwnedStory (ln_storyId input) (user_id user)) (\<lambda>_.
     await (if_truthy (ln_chapterId input)
              (\<lambda>chapterId. getOwnedChapter chapterId (ln_storyId input) (user_id user))) (\<lambda>_.
     await (db_select StoryScenes
              (if truthy (ln_chapterId input)
               then (\<lambda>n. scene_storyId n = ln_storyId input \<and> scene_chapterId n = ln_chapterId input)
               else (\<lambda>n. scene_storyId n = ln_storyId input))) (\<lambda>scenes.
     resolve (SceneItems scenes (length scenes))))))"

section \<open>The exported actions\<close>

datatype request =
    CreateStory createStory_payload
  | UpdateStory updateStory_payload
  | ListStories
  | CreateStoryAct createStoryAct_payload
  | UpdateStoryAct updateStoryAct_payload
  | DeleteStoryAct deleteStoryAct_payload
  | ListStoryActs listStoryActs_payload
  | CreateStoryChapter createStoryChapter_payload
  | UpdateStoryChapter updateStoryChapter_payload
  | DeleteStoryChapter deleteStoryChapter_payload
  | ListStoryChapters listStoryChapters_payload
  | CreateStoryScene createStoryScene_payload
  | UpdateStoryScene updateStoryScene_payload
  | DeleteStoryScene deleteStoryScene_payload
  | ListStoryScenes listStoryScenes_payload

text \<open>\<^verbatim>\<open>export const server = { ... }\<close>: each action is its schema and its handler under
  \<open>defineAction\<close>; \<^verbatim>\<open>listStories\<close> takes no payload (\<^verbatim>\<open>z.object({}).optional()\<close>).\<close>

fun server :: "request \<Rightarrow> api_context \<Rightarrow> env \<Rightarrow> data promise" where
  "server (CreateStory i) = defineAction createStory_input createStory_handler i"
| "server (UpdateStory i) = defineAction updateStory_input updateStory_handler i"
| "server ListStories = defineAction (\<lambda>_. []) listStories_handler ()"
| "server (CreateStoryAct i) = defineAction createStoryAct_input createStoryAct_handler i"
| "server (UpdateStoryAct i) = defineAction updateStoryAct_input updateStoryAct_handler i"
| "server (DeleteStoryAct i) = defineAction deleteStoryAct_input deleteStoryAct_handler i"
| "server (ListStoryActs i) = defineAction listStoryActs_input listStoryActs_handler i"
| "server (CreateStoryChapter i) =
     defineAction createStoryChapter_input createStoryChapter_handler i"
| "server (UpdateStoryChapter i) =
     defineAction updateStoryChapter_input updateStoryChapter_handler i"
| "server (DeleteStoryChapter i) =
     defineAction deleteStoryChapter_input deleteStoryChapter_handler i"
| "server (ListStoryChapters i) =
     defineAction listStoryChapters_input listStoryChapters_handler i"
| "server (CreateStoryScene i) = defineAction createStoryScene_input createStoryScene_handler i"
| "server (UpdateStoryScene i) = defineAction updateStoryScene_input updateStoryScene_handler i"
| "server (DeleteStoryScene i) = defineAction deleteStoryScene_input deleteStoryScene_handler i"
| "server (ListStoryScenes i) = defineAction listStoryScenes_input listStoryScenes_handler i"

section \<open>Vocabulary of the properties\<close>

text \<open>The store holds a story with this id owned by this user; an act, a chapter or a
  scene with this id inside this story.\<close>

definition owns :: "db \<Rightarrow> string \<Rightarrow> string \<Rightarrow> bool" where
  "owns d storyId userId =
     (\<exists>s \<in> set (stories d). story_id s = storyId \<and> story_userId s = userId)"

definition has_act :: "db \<Rightarrow> string \<Rightarrow> string \<Rightarrow> bool" where
  "has_act d actId storyId =
     (\<exists>a \<in> set (storyActs d). act_id a = actId \<and> act_storyId a = storyId)"

definition has_chapter :: "db \<Rightarrow> string \<Rightarrow> string \<Rightarrow> bool" where
  "has_chapter d chapterId storyId =
     (\<exists>c \<in> set (storyChapters d). chapter_id c = chapterId \<and> chapter_storyId c = storyId)"

definition has_scene :: "db \<Rightarrow> string \<Rightarrow> string \<Rightarrow> bool" where
  "has_scene d sceneId storyId =
     (\<exists>n \<in> set (storyScenes d). scene_id n = sceneId \<and> scene_storyId n = storyId)"

text \<open>The issues the schema of a request's action finds in its payload.\<close>

fun input_issues :: "request \<Rightarrow> issue list" where
  "input_issues (CreateStory i) = createStory_input i"
| "input_issues (UpdateStory i) = updateStory_input i"
| "input_issues ListStories = []"
| "input_issues (CreateStoryAct i) = createStoryAct_input i"
| "input_issues (UpdateStoryAct i) = updateStoryAct_input i"
| "input_issues (DeleteStoryAct i) = deleteStoryAct_input i"
| "input_issues (ListStoryActs i) = listStoryActs_input i"
| "input_issues (CreateStoryChapter i) = createStoryChapter_input i"
| "input_issues (UpdateStoryChapter i) = updateStoryChapter_input i"
| "input_issues (DeleteStoryChapter i) = deleteStoryChapter_input i"
| "input_issues (ListStoryChapters i) = listStoryChapters_input i"
| "input_issues (CreateStoryScene i) = createStoryScene_input i"
| "input_issues (UpdateStoryScene i) = updateStoryScene_input i"
| "input_issues (DeleteStoryScene i) = deleteStoryScene_input i"
| "input_issues (ListStoryScenes i) = listStoryScenes_input i"

text \<open>The \<^verbatim>\<open>storyId\<close> of a request on an act, a chapter or a scene.\<close>

fun request_storyId :: "request \<Rightarrow> string option" where
  "request_storyId (CreateStoryAct i) = Some (ca_storyId i)"
| "request_storyId (UpdateStoryAct i) = Some (ua_storyId i)"
| "request_storyId (DeleteStoryAct i) = Some (da_storyId i)"
| "request_storyId (ListStoryActs i) = Some (la_storyId i)"
| "request_storyId (CreateStoryChapter i) = Some (cc_storyId i)"
| "request_storyId (UpdateStoryChapter i) = Some (uc_storyId i)"
| "request_storyId (DeleteStoryChapter i) = Some (dc_storyId i)"
| "request_storyId (ListStoryChapters i) = Some (lc_storyId i)"
| "request_storyId (CreateStoryScene i) = Some (cn_storyId i)"
| "request_storyId (UpdateStoryScene i) = Some (un_storyId i)"
| "request_storyId (DeleteStoryScene i) = Some (dn_storyId i)"
| "request_storyId (ListStoryScenes i) = Some (ln_storyId i)"
| "request_storyId _ = None"

text \<open>The row an update or a delete names is stored inside the story the request names.\<close>

fun target_in_story :: "request \<Rightarrow> db \<Rightarrow> bool" where
  "target_in_story (UpdateStoryAct i) d = has_act d (ua_id i) (ua_storyId i)"
| "target_in_story (DeleteStoryAct i) d = has_act d (da_id i) (da_storyId i)"
| "target_in_story (UpdateStoryChapter i) d = has_chapter d (uc_id i) (uc_storyId i)"
| "target_in_story (DeleteStoryChapter i) d = has_chapter d (dc_id i) (dc_storyId i)"
| "target_in_story (UpdateStoryScene i) d = has_scene d (un_id i) (un_storyId i)"
| "target_in_story (DeleteStoryScene i) d = has_scene d (dn_id i) (dn_storyId i)"
| "target_in_story _ d = True"

text \<open>The two errors the handlers raise.\<close>

definition unauthorized :: error where
  "unauthorized = ActionError UNAUTHORIZED ''You must be signed in to perform this action.''"

definition not_found :: "string \<Rightarrow> error" where
  "not_found what = ActionError NOT_FOUND (what @ '' not found.'')"

text \<open>An update request whose payload sets none of its mutable fields.\<close>

fun sets_no_field :: "request \<Rightarrow> bool" where
  "sets_no_field (UpdateStory i) =
     (us_title i = None \<and> us_logline i = None \<and> us_genre i = None \<and>
      us_targetAudience i = None \<and> us_status i = None \<and> us_notes i = None)"
| "sets_no_field (UpdateStoryAct i) =
     (ua_orderIndex i = None \<and> ua_title i = None \<and> ua_summary i = None)"
| "sets_no_field (UpdateStoryChapter i) =
     (uc_actId i = None \<and> uc_orderIndex i = None \<and> uc_title i = None \<and>
      uc_povCharacter i = None \<and> uc_summary i = None)"
| "sets_no_field (UpdateStoryScene i) =
     (un_chapterId i = None \<and> un_orderIndex i = None \<and> un_setting i = None \<and>
      un_goal i = None \<and> un_conflict i = None \<and> un_outcome i = None \<and> un_content i = None)"
| "sets_no_field _ = False"

text \<open>The table a request's one mutating statement is issued against (none for a list).\<close>

datatype table_name = StoriesTable | StoryActsTable | StoryChaptersTable | StoryScenesTable


text \<open>Every table but the named one has the same rows in both stores.\<close>

definition same_except :: "table_name option \<Rightarrow> db \<Rightarrow> db \<Rightarrow> bool" where
  "same_except t d d' =
     ((t = Some StoriesTable \<or> stories d' = stories d) \<and>
      (t = Some StoryActsTable \<or> storyActs d' = storyActs d) \<and>
      (t = Some StoryChaptersTable \<or> storyChapters d' = storyChapters d) \<and>
      (t = Some StoryScenesTable \<or> storyScenes d' = storyScenes d))"

text \<open>What a partial update makes of a row, field by field: a field the payload supplies
  takes the supplied value, every other field keeps its own; the rows of Stories,
  StoryChapters and StoryScenes also get \<open>now\<close> as their \<^verbatim>\<open>updatedAt\<close>.\<close>

definition story_updated :: "updateStory_payload \<Rightarrow> date \<Rightarrow> story_row \<Rightarrow> story_row \<Rightarrow> bool" where
  "story_updated i now r r' =
     (story_id r' = story_id r \<and> story_userId r' = story_userId r \<and>
      story_createdAt r' = story_createdAt r \<and>
      story_title r' = (case us_title i of None \<Rightarrow> story_title r | Some v \<Rightarrow> v) \<and>
      story_logline r' = (case us_logline i of None \<Rightarrow> story_logline r | Some v \<Rightarrow> Some v) \<and>
      story_genre r' = (case us_genre i of None \<Rightarrow> story_genre r | Some v \<Rightarrow> Some v) \<and>
      story_targetAudience r' =
        (case us_targetAudience i of None \<Rightarrow> story_targetAudience r | Some v \<Rightarrow> Some v) \<and>
      story_status r' = (case us_status i of None \<Rightarrow> story_status r | Some v \<Rightarrow> Some v) \<and>
      story_notes r' = (case us_notes i of None \<Rightarrow> story_notes r | Some v \<Rightarrow> Some v) \<and>
      story_updatedAt r' = now)"

definition act_updated :: "updateStoryAct_payload \<Rightarrow> act_row \<Rightarrow> act_row \<Rightarrow> bool" where
  "act_updated i r r' =
     (act_id r' = act_id r \<and> act_storyId r' = act_storyId r \<and>
      act_createdAt r' = act_createdAt r \<and>
      act_orderIndex r' = (case ua_orderIndex i of None \<Rightarrow> act_orderIndex r | Some v \<Rightarrow> v) \<and>
      act_title r' = (case ua_title i of None \<Rightarrow> act_title r | Some v \<Rightarrow> Some v) \<and>
      act_summary r' = (case ua_summary i of None \<Rightarrow> act_summary r | Some v \<Rightarrow> Some v))"

definition chapter_updated ::
  "updateStoryChapter_payload \<Rightarrow> date \<Rightarrow> chapter_row \<Rightarrow> chapter_row \<Rightarrow> bool" where
  "chapter_updated i now r r' =
     (chapter_id r' = chapter_id r \<and> chapter_storyId r' = chapter_storyId r \<and>
      chapter_createdAt r' = chapter_createdAt r \<and>
      chapter_actId r' = (case uc_actId i of None \<Rightarrow> chapter_actId r | Some v \<Rightarrow> Some v) \<and>
      chapter_orderIndex r' =
        (case uc_orderIndex i of None \<Rightarrow> chapter_orderIndex r | Some v \<Rightarrow> v) \<and>
      chapter_title r' = (case uc_title i of None \<Rightarrow> chapter_title r | Some v \<Rightarrow> Some v) \<and>
      chapter_povCharacter r' =
        (case uc_povCharacter i of None \<Rightarrow> chapter_povCharacter r | Some v \<Rightarrow> Some v) \<and>
      chapter_summary r' = (case uc_summary i of None \<Rightarrow> chapter_summary r | Some v \<Rightarrow> Some v) \<and>
      chapter_updatedAt r' = now)"

definition scene_updated ::
  "updateStoryScene_payload \<Rightarrow> date \<Rightarrow> scene_row \<Rightarrow> scene_row \<Rightarrow> bool" where
  "scene_updated i now r r' =
     (scene_id r' = scene_id r \<and> scene_storyId r' = scene_storyId r \<and>
      scene_createdAt r' = scene_createdAt r \<and>
      scene_chapterId r' = (case un_chapterId i of None \<Rightarrow> scene_chapterId r | Some v \<Rightarrow> Some v) \<and>
      scene_orderIndex r' = (case un_orderIndex i of None \<Rightarrow> scene_orderIndex r | Some v \<Rightarrow> v) \<and>
      scene_setting r' = (case un_setting i of None \<Rightarrow> scene_setting r | Some v \<Rightarrow> Some v) \<and>
      scene_goal r' = (case un_goal i of None \<Rightarrow> scene_goal r | Some v \<Rightarrow> Some v) \<and>
      scene_conflict r' = (case un_conflict i of None \<Rightarrow> scene_conflict r | Some v \<Rightarrow> Some v) \<and>
      scene_outcome r' = (case un_outcome i of None \<Rightarrow> scene_outcome r | Some v \<Rightarrow> Some v) \<and>
      scene_content r' = (case un_content i of None \<Rightarrow> scene_content r | Some v \<Rightarrow> Some v) \<and>
      scene_updatedAt r' = now)"


text \<open>The payload supplies an ancestor id that names no row of the payload's story (for the
  create and the list actions: a non-empty one).\<close>

fun foreign_ref :: "request \<Rightarrow> db \<Rightarrow> bool" where
  "foreign_ref (CreateStoryChapter i) d =
     (case cc_actId i of None \<Rightarrow> False
      | Some a \<Rightarrow> a \<noteq> [] \<and> \<not> has_act d a (cc_storyId i))"
| "foreign_ref (UpdateStoryChapter i) d =
     (case uc_actId i of None \<Rightarrow> False | Some a \<Rightarrow> \<not> has_act d a (uc_storyId i))"
| "foreign_ref (CreateStoryScene i) d =
     (case cn_chapterId i of None \<Rightarrow> False
      | Some c \<Rightarrow> c \<noteq> [] \<and> \<not> has_chapter d c (cn_storyId i))"
| "foreign_ref (UpdateStoryScene i) d =
     (case un_chapterId i of None \<Rightarrow> False | Some c \<Rightarrow> \<not> has_chapter d c (un_storyId i))"
| "foreign_ref (ListStoryChapters i) d =
     (case lc_actId i of None \<Rightarrow> False
      | Some a \<Rightarrow> a \<noteq> [] \<and> \<not> has_act d a (lc_storyId i))"
| "foreign_ref (ListStoryScenes i) d =
     (case ln_chapterId i of None \<Rightarrow> False
      | Some c \<Rightarrow> c \<noteq> [] \<and> \<not> has_chapter d c (ln_storyId i))"
| "foreign_ref _ d = False"

subsection \<open>A small store for the examples\<close>

text \<open>User \<open>u1\<close> owns story \<open>A\<close> with one act, a chapter under that act, a chapter
  under no act and one scene under the first chapter; user \<open>u2\<close> owns story \<open>B\<close> with
  one act.\<close>

definition demo_db :: db where
  "demo_db =
     \<lparr>stories =
        [\<lparr>story_id = ''A'', story_userId = ''u1'', story_title = ''Novel A'',
          story_logline = None, story_genre = Some ''Fantasy'', story_targetAudience = None,
          story_status = None, story_notes = None, story_createdAt = 1, story_updatedAt = 1\<rparr>,
         \<lparr>story_id = ''B'', story_userId = ''u2'', story_title = ''Novel B'',
          story_logline = None, story_genre = None, story_targetAudience = None,
          story_status = None, story_notes = None, story_createdAt = 2, story_updatedAt = 2\<rparr>],
      storyActs =
        [\<lparr>act_id = ''a1'', act_storyId = ''A'', act_orderIndex = 1, act_title = Some ''Setup'',
          act_summary = None, act_createdAt = 3\<rparr>,
         \<lparr>act_id = ''b1'', act_storyId = ''B'', act_orderIndex = 1, act_title = None,
          act_summary = None, act_createdAt = 4\<rparr>],
      storyChapters =
        [\<lparr>chapter_id = ''c1'', chapter_storyId = ''A'', chapter_actId = Some ''a1'',
          chapter_orderIndex = 1, chapter_title = Some ''One'', chapter_povCharacter = None,
          chapter_summary = None, chapter_createdAt = 5, chapter_updatedAt = 5\<rparr>,
         \<lparr>chapter_id = ''c2'', chapter_storyId = ''A'', chapter_actId = None,
          chapter_orderIndex = 2, chapter_title = Some ''Two'', chapter_povCharacter = None,
          chapter_summary = None, chapter_createdAt = 7, chapter_updatedAt = 7\<rparr>],
      storyScenes =
        [\<lparr>scene_id = ''n1'', scene_storyId = ''A'', scene_chapterId = Some ''c1'',
          scene_orderIndex = 1, scene_setting = None, scene_goal = None, scene_conflict = None,
          scene_outcome = None, scene_content = Some ''Draft'', scene_createdAt = 6,
          scene_updatedAt = 6\<rparr>],
      executed = 0\<rparr>"

definition ctx_u1 :: api_context where
  "ctx_u1 = \<lparr>locals = Some \<lparr>locals_user = Some \<lparr>user_id = ''u1''\<rparr>\<rparr>\<rparr>"

definition ctx_u2 :: api_context where
  "ctx_u2 = \<lparr>locals = Some \<lparr>locals_user = Some \<lparr>user_id = ''u2''\<rparr>\<rparr>\<rparr>"

definition ctx_anonymous :: api_context where
  "ctx_anonymous = \<lparr>locals = Some \<lparr>locals_user = None\<rparr>\<rparr>"

definition demo_env :: env where
  "demo_env = \<lparr>randomUUID = ''fresh'', newDate = 100\<rparr>"

section \<open>The actions in closed form\<close>

lemma first_filter_None: "(first (filter P xs) = None) = (\<not> (\<exists>x\<in>set xs. P x))"
  by (induction xs) auto

lemma first_filter_Some: "first (filter P xs) = Some x \<Longrightarrow> x \<in> set xs \<and> P x"
  by (induction xs) (auto split: if_splits)

lemma requireUser_eq:
  "requireUser ctx d =
     (case currentUser ctx of None \<Rightarrow> (Inl unauthorized, d) | Some u \<Rightarrow> (Inr u, d))"
  by (simp add: requireUser_def throw_def resolve_def unauthorized_def split: option.splits)

lemma getOwnedStory_eq:
  "getOwnedStory sid uid d =
     (if owns d sid uid
      then (Inr (the (first (filter (\<lambda>s. story_id s = sid \<and> story_userId s = uid) (stories d)))), d)
      else (Inl (not_found ''Story''), d))"
proof (cases "first (filter (\<lambda>s. story_id s = sid \<and> story_userId s = uid) (stories d))")
  case None
  then have "\<not> owns d sid uid"
    by (simp add: first_filter_None owns_def)
  with None show ?thesis
    by (simp add: getOwnedStory_def await_def db_select_def Stories_def throw_def not_found_def)
next
  case (Some s)
  then have "owns d sid uid"
    using first_filter_Some [OF Some] by (auto simp: owns_def)
  with Some show ?thesis
    by (simp add: getOwnedStory_def await_def db_select_def Stories_def resolve_def)
qed

lemma getOwnedAct_eq:
  "getOwnedAct aid sid uid d =
     (if \<not> owns d sid uid then (Inl (not_found ''Story''), d)
      else if has_act d aid sid
      then (Inr (the (first (filter (\<lambda>a. act_id a = aid \<and> act_storyId a = sid) (storyActs d)))), d)
      else (Inl (not_found ''Act''), d))"
proof (cases "first (filter (\<lambda>a. act_id a = aid \<and> act_storyId a = sid) (storyActs d))")
  case None
  then have "\<not> has_act d aid sid"
    by (simp add: first_filter_None has_act_def)
  with None show ?thesis
    by (simp add: getOwnedAct_def getOwnedStory_eq await_def db_select_def StoryActs_def
        throw_def not_found_def)
next
  case (Some a)
  then have "has_act d aid sid"
    using first_filter_Some [OF Some] by (auto simp: has_act_def)
  with Some show ?thesis
    by (simp add: getOwnedAct_def getOwnedStory_eq await_def db_select_def StoryActs_def
        resolve_def)
qed

lemma getOwnedChapter_eq:
  "getOwnedChapter cid sid uid d =
     (if \<not> owns d sid uid then (Inl (not_found ''Story''), d)
      else if has_chapter d cid sid
      then (Inr (the (first (filter (\<lambda>c. chapter_id c = cid \<and> chapter_storyId c = sid)
                         (storyChapters d)))), d)
      else (Inl (not_found ''Chapter''), d))"
proof (cases "first (filter (\<lambda>c. chapter_id c = cid \<and> chapter_storyId c = sid) (storyChapters d))")
  case None
  then have "\<not> has_chapter d cid sid"
    by (simp add: first_filter_None has_chapter_def)
  with None show ?thesis
    by (simp add: getOwnedChapter_def getOwnedStory_eq await_def db_select_def
        StoryChapters_def throw_def not_found_def)
next
  case (Some c)
  then have "has_chapter d cid sid"
    using first_filter_Some [OF Some] by (auto simp: has_chapter_def)
  with Some show ?thesis
    by (simp add: getOwnedChapter_def getOwnedStory_eq await_def db_select_def
        StoryChapters_def resolve_def)
qed

lemma getOwnedScene_eq:
  "getOwnedScene nid sid uid d =
     (if \<not> owns d sid uid then (Inl (not_found ''Story''), d)
      else if has_scene d nid sid
      then (Inr (the (first (filter (\<lambda>n. scene_id n = nid \<and> scene_storyId n = sid)
                         (storyScenes d)))), d)
      else (Inl (not_found ''Scene''), d))"
proof (cases "first (filter (\<lambda>n. scene_id n = nid \<and> scene_storyId n = sid) (storyScenes d))")
  case None
  then have "\<not> has_scene d nid sid"
    by (simp add: first_filter_None has_scene_def)
  with None show ?thesis
    by (simp add: getOwnedScene_def getOwnedStory_eq await_def db_select_def
        StoryScenes_def throw_def not_found_def)
next
  case (Some n)
  then have "has_scene d nid sid"
    using first_filter_Some [OF Some] by (auto simp: has_scene_def)
  with Some show ?thesis
    by (simp add: getOwnedScene_def getOwnedStory_eq await_def db_select_def
        StoryScenes_def resolve_def)
qed

lemmas run_defs =
  defineAction_def throw_def resolve_def await_def Let_def requireUser_eq getOwnedStory_eq
  getOwnedAct_eq getOwnedChapter_eq getOwnedScene_eq if_truthy_def if_defined_def
  db_select_def db_insert_def db_update_def db_delete_def
  Stories_def StoryActs_def StoryChapters_def StoryScenes_def

lemma server_CreateStory:
  "server (CreateStory i) ctx e d =
     (if createStory_input i \<noteq> [] then (Inl (ActionInputError (createStory_input i)), d)
      else case currentUser ctx of
        None \<Rightarrow> (Inl unauthorized, d)
      | Some u \<Rightarrow>
          (Inr (StoryData (Some (createStory_values i u (randomUUID e) (newDate e)))),
           mutate Stories (\<lambda>rows. rows @ [createStory_values i u (randomUUID e) (newDate e)]) d))"
  by (simp add: run_defs createStory_handler_def split: list.splits option.splits)

lemma server_UpdateStory:
  "server (UpdateStory i) ctx e d =
     (if updateStory_input i \<noteq> [] then (Inl (ActionInputError (updateStory_input i)), d)
      else case currentUser ctx of
        None \<Rightarrow> (Inl unauthorized, d)
      | Some u \<Rightarrow>
          if \<not> owns d (us_id i) (user_id u) then (Inl (not_found ''Story''), d)
          else (Inr (StoryData (first (map (updateStory_set i (newDate e))
                        (filter (\<lambda>s. story_id s = us_id i) (stories d))))),
                mutate Stories
                  (map (\<lambda>s. if story_id s = us_id i then updateStory_set i (newDate e) s else s)) d))"
  by (simp add: run_defs updateStory_handler_def split: list.splits option.splits)

lemma server_ListStories:
  "server ListStories ctx e d =
     (case currentUser ctx of
        None \<Rightarrow> (Inl unauthorized, d)
      | Some u \<Rightarrow>
          (Inr (StoryItems (filter (\<lambda>s. story_userId s = user_id u) (stories d))
                  (length (filter (\<lambda>s. story_userId s = user_id u) (stories d)))), d))"
  by (simp add: run_defs listStories_handler_def split: list.splits option.splits)

lemma server_CreateStoryAct:
  "server (CreateStoryAct i) ctx e d =
     (if createStoryAct_input i \<noteq> [] then (Inl (ActionInputError (createStoryAct_input i)), d)
      else case currentUser ctx of
        None \<Rightarrow> (Inl unauthorized, d)
      | Some u \<Rightarrow>
          if \<not> owns d (ca_storyId i) (user_id u) then (Inl (not_found ''Story''), d)
          else (Inr (ActData (Some (createStoryAct_values i (randomUUID e) (newDate e)))),
                mutate StoryActs
                  (\<lambda>rows. rows @ [createStoryAct_values i (randomUUID e) (newDate e)]) d))"
  by (simp add: run_defs createStoryAct_handler_def split: list.splits option.splits)

lemma server_UpdateStoryAct:
  "server (UpdateStoryAct i) ctx e d =
     (if updateStoryAct_input i \<noteq> [] then (Inl (ActionInputError (updateStoryAct_input i)), d)
      else case currentUser ctx of
        None \<Rightarrow> (Inl unauthorized, d)
      | Some u \<Rightarrow>
          if \<not> owns d (ua_storyId i) (user_id u) then (Inl (not_found ''Story''), d)
          else if \<not> has_act d (ua_id i) (ua_storyId i) then (Inl (not_found ''Act''), d)
          else (Inr (ActData (first (map (updateStoryAct_set i)
                        (filter (\<lambda>a. act_id a = ua_id i) (storyActs d))))),
                mutate StoryActs
                  (map (\<lambda>a. if act_id a = ua_id i then updateStoryAct_set i a else a)) d))"
  by (simp add: run_defs updateStoryAct_handler_def split: list.splits option.splits)

lemma server_DeleteStoryAct:
  "server (DeleteStoryAct i) ctx e d =
     (if deleteStoryAct_input i \<noteq> [] then (Inl (ActionInputError (deleteStoryAct_input i)), d)
      else case currentUser ctx of
        None \<Rightarrow> (Inl unauthorized, d)
      | Some u \<Rightarrow>
          if \<not> owns d (da_storyId i) (user_id u) then (Inl (not_found ''Story''), d)
          else if \<not> has_act d (da_id i) (da_storyId i) then (Inl (not_found ''Act''), d)
          else (Inr NoData, mutate StoryActs (filter (\<lambda>a. act_id a \<noteq> da_id i)) d))"
  by (simp add: run_defs deleteStoryAct_handler_def split: list.splits option.splits)

lemma server_ListStoryActs:
  "server (ListStoryActs i) ctx e d =
     (if listStoryActs_input i \<noteq> [] then (Inl (ActionInputError (listStoryActs_input i)), d)
      else case currentUser ctx of
        None \<Rightarrow> (Inl unauthorized, d)
      | Some u \<Rightarrow>
          if \<not> owns d (la_storyId i) (user_id u) then (Inl (not_found ''Story''), d)
          else (Inr (ActItems (filter (\<lambda>a. act_storyId a = la_storyId i) (storyActs d))
                       (length (filter (\<lambda>a. act_storyId a = la_storyId i) (storyActs d)))), d))"
  by (simp add: run_defs listStoryActs_handler_def split: list.splits option.splits)

lemma server_CreateStoryChapter:
  "server (CreateStoryChapter i) ctx e d =
     (if createStoryChapter_input i \<noteq> []
      then (Inl (ActionInputError (createStoryChapter_input i)), d)
      else case currentUser ctx of
        None \<Rightarrow> (Inl unauthorized, d)
      | Some u \<Rightarrow>
          if \<not> owns d (cc_storyId i) (user_id u) then (Inl (not_found ''Story''), d)
          else if foreign_ref (CreateStoryChapter i) d then (Inl (not_found ''Act''), d)
          else (Inr (ChapterData (Some (createStoryChapter_values i (randomUUID e) (newDate e)))),
                mutate StoryChapters
                  (\<lambda>rows. rows @ [createStoryChapter_values i (randomUUID e) (newDate e)]) d))"
  by (simp add: run_defs createStoryChapter_handler_def split: list.splits option.splits)

lemma server_UpdateStoryChapter:
  "server (UpdateStoryChapter i) ctx e d =
     (if updateStoryChapter_input i \<noteq> []
      then (Inl (ActionInputError (updateStoryChapter_input i)), d)
      else case currentUser ctx of
        None \<Rightarrow> (Inl unauthorized, d)
      | Some u \<Rightarrow>
          if \<not> owns d (uc_storyId i) (user_id u) then (Inl (not_found ''Story''), d)
          else if \<not> has_chapter d (uc_id i) (uc_storyId i) then (Inl (not_found ''Chapter''), d)
          else if foreign_ref (UpdateStoryChapter i) d then (Inl (not_found ''Act''), d)
          else (Inr (ChapterData (first (map (updateStoryChapter_set i (newDate e))
                        (filter (\<lambda>c. chapter_id c = uc_id i) (storyChapters d))))),
                mutate StoryChapters
                  (map (\<lambda>c. if chapter_id c = uc_id i
                             then updateStoryChapter_set i (newDate e) c else c)) d))"
  by (simp add: run_defs updateStoryChapter_handler_def split: list.splits option.splits)

lemma server_DeleteStoryChapter:
  "server (DeleteStoryChapter i) ctx e d =
     (if deleteStoryChapter_input i \<noteq> []
      then (Inl (ActionInputError (deleteStoryChapter_input i)), d)
      else case currentUser ctx of
        None \<Rightarrow> (Inl unauthorized, d)
      | Some u \<Rightarrow>
          if \<not> owns d (dc_storyId i) (user_id u) then (Inl (not_found ''Story''), d)
          else if \<not> has_chapter d (dc_id i) (dc_storyId i) then (Inl (not_found ''Chapter''), d)
          else (Inr NoData, mutate StoryChapters (filter (\<lambda>c. chapter_id c \<noteq> dc_id i)) d))"
  by (simp add: run_defs deleteStoryChapter_handler_def split: list.splits option.splits)

lemma server_ListStoryChapters:
  "server (ListStoryChapters i) ctx e d =
     (if listStoryChapters_input i \<noteq> []
      then (Inl (ActionInputError (listStoryChapters_input i)), d)
      else case currentUser ctx of
        None \<Rightarrow> (Inl unauthorized, d)
      | Some u \<Rightarrow>
          if \<not> owns d (lc_storyId i) (user_id u) then (Inl (not_found ''Story''), d)
          else if foreign_ref (ListStoryChapters i) d then (Inl (not_found ''Act''), d)
          else (Inr (ChapterItems
                  (filter (\<lambda>c. chapter_storyId c = lc_storyId i \<and>
                                (truthy (lc_actId i) \<longrightarrow> chapter_actId c = lc_actId i))
                     (storyChapters d))
                  (length (filter (\<lambda>c. chapter_storyId c = lc_storyId i \<and>
                                (truthy (lc_actId i) \<longrightarrow> chapter_actId c = lc_actId i))
                     (storyChapters d)))), d))"
  by (simp add: run_defs listStoryChapters_handler_def split: list.splits option.splits)

lemma server_CreateStoryScene:
  "server (CreateStoryScene i) ctx e d =
     (if createStoryScene_input i \<noteq> []
      then (Inl (ActionInputError (createStoryScene_input i)), d)
      else case currentUser ctx of
        None \<Rightarrow> (Inl unauthorized, d)
      | Some u \<Rightarrow>
          if \<not> owns d (cn_storyId i) (user_id u) then (Inl (not_found ''Story''), d)
          else if foreign_ref (CreateStoryScene i) d then (Inl (not_found ''Chapter''), d)
          else (Inr (SceneData (Some (createStoryScene_values i (randomUUID e) (newDate e)))),
                mutate StoryScenes
                  (\<lambda>rows. rows @ [createStoryScene_values i (randomUUID e) (newDate e)]) d))"
  by (simp add: run_defs createStoryScene_handler_def split: list.splits option.splits)

lemma server_UpdateStoryScene:
  "server (UpdateStoryScene i) ctx e d =
     (if updateStoryScene_input i \<noteq> []
      then (Inl (ActionInputError (updateStoryScene_input i)), d)
      else case currentUser ctx of
        None \<Rightarrow> (Inl unauthorized, d)
      | Some u \<Rightarrow>
          if \<not> owns d (un_storyId i) (user_id u) then (Inl (not_found ''Story''), d)
          else if \<not> has_scene d (un_id i) (un_storyId i) then (Inl (not_found ''Scene''), d)
          else if foreign_ref (UpdateStoryScene i) d then (Inl (not_found ''Chapter''), d)
          else (Inr (SceneData (first (map (updateStoryScene_set i (newDate e))
                        (filter (\<lambda>n. scene_id n = un_id i) (storyScenes d))))),
                mutate StoryScenes
                  (map (\<lambda>n. if scene_id n = un_id i
                             then updateStoryScene_set i (newDate e) n else n)) d))"
  by (simp add: run_defs updateStoryScene_handler_def split: list.splits option.splits)

lemma server_DeleteStoryScene:
  "server (DeleteStoryScene i) ctx e d =
     (if deleteStoryScene_input i \<noteq> []
      then (Inl (ActionInputError (deleteStoryScene_input i)), d)
      else case currentUser ctx of
        None \<Rightarrow> (Inl unauthorized, d)
      | Some u \<Rightarrow>
          if \<not> owns d (dn_storyId i) (user_id u) then (Inl (not_found ''Story''), d)
          else if \<not> has_scene d (dn_id i) (dn_storyId i) then (Inl (not_found ''Scene''), d)
          else (Inr NoData, mutate StoryScenes (filter (\<lambda>n. scene_id n \<noteq> dn_id i)) d))"
  by (simp add: run_defs deleteStoryScene_handler_def split: list.splits option.splits)

lemma server_ListStoryScenes:
  "server (ListStoryScenes i) ctx e d =
     (if listStoryScenes_input i \<noteq> []
      then (Inl (ActionInputError (listStoryScenes_input i)), d)
      else case currentUser ctx of
        None \<Rightarrow> (Inl unauthorized, d)
      | Some u \<Rightarrow>
          if \<not> owns d (ln_storyId i) (user_id u) then (Inl (not_found ''Story''), d)
          else if foreign_ref (ListStoryScenes i) d then (Inl (not_found ''Chapter''), d)
          else (Inr (SceneItems
                  (filter (\<lambda>n. scene_storyId n = ln_storyId i \<and>
                                (truthy (ln_chapterId i) \<longrightarrow> scene_chapterId n = ln_chapterId i))
                     (storyScenes d))
                  (length (filter (\<lambda>n. scene_storyId n = ln_storyId i \<and>
                                (truthy (ln_chapterId i) \<longrightarrow> scene_chapterId n = ln_chapterId i))
                     (storyScenes d)))), d))"
  by (simp add: run_defs listStoryScenes_handler_def split: list.splits option.splits)

lemmas server_eqs =
  server_CreateStory server_UpdateStory server_ListStories
  server_CreateStoryAct server_UpdateStoryAct server_DeleteStoryAct server_ListStoryActs
  server_CreateStoryChapter server_UpdateStoryChapter server_DeleteStoryChapter
  server_ListStoryChapters
  server_CreateStoryScene server_UpdateStoryScene server_DeleteStoryScene
  server_ListStoryScenes

section \<open>Facts shared by the properties\<close>


lemma mutate_tables:
  "stories (mutate Stories f d) = f (stories d)"
  "storyActs (mutate Stories f d) = storyActs d"
  "storyChapters (mutate Stories f d) = storyChapters d"
  "storyScenes (mutate Stories f d) = storyScenes d"
  "stories (mutate StoryActs g d) = stories d"
  "storyActs (mutate StoryActs g d) = g (storyActs d)"
  "storyChapters (mutate StoryActs g d) = storyChapters d"
  "storyScenes (mutate StoryActs g d) = storyScenes d"
  "stories (mutate StoryChapters h d) = stories d"
  "storyActs (mutate StoryChapters h d) = storyActs d"
  "storyChapters (mutate StoryChapters h d) = h (storyChapters d)"
  "storyScenes (mutate StoryChapters h d) = storyScenes d"
  "stories (mutate StoryScenes k d) = stories d"
  "storyActs (mutate StoryScenes k d) = storyActs d"
  "storyChapters (mutate StoryScenes k d) = storyChapters d"
  "storyScenes (mutate StoryScenes k d) = k (storyScenes d)"
  by (simp_all add: mutate_def Stories_def StoryActs_def StoryChapters_def StoryScenes_def)

text \<open>Unfolding for the evaluation of the actions on the example store.\<close>

lemmas schema_defs =
  createStory_input_def updateStory_input_def createStoryAct_input_def updateStoryAct_input_def
  deleteStoryAct_input_def listStoryActs_input_def createStoryChapter_input_def
  updateStoryChapter_input_def deleteStoryChapter_input_def listStoryChapters_input_def
  createStoryScene_input_def updateStoryScene_input_def deleteStoryScene_input_def
  listStoryScenes_input_def min1_def int_check_def isInteger_def refine_def

lemmas demo_defs =
  demo_db_def ctx_u1_def ctx_u2_def ctx_anonymous_def demo_env_def currentUser_def
  owns_def has_act_def has_chapter_def has_scene_def mutate_def
  Stories_def StoryActs_def StoryChapters_def StoryScenes_def

section \<open>Failure leaves the store as it was; success is one statement\<close>



section \<open>An update that sets no field\<close>

lemma issues_of_empty_update:
  "sets_no_field req \<Longrightarrow> Custom at_least_one \<in> set (input_issues req)"
  by (cases req)
     (simp_all add: updateStory_input_def updateStoryAct_input_def updateStoryChapter_input_def
        updateStoryScene_input_def refine_def)

lemma server_rejects_issues:
  "input_issues req \<noteq> [] \<Longrightarrow> server req ctx e d = (Inl (ActionInputError (input_issues req)), d)"
  by (cases req) (simp_all add: server_eqs del: server.simps)

text \<open>
  Claim C3. For each of updateStory, updateStoryAct, updateStoryChapter and
  updateStoryScene, whoever calls and whatever the store holds: a payload that sets none
  of the action's mutable fields fails with the input error whose issues are those of the
  schema, among them the message "At least one field must be provided to update.", and
  the store is returned as it was (no statement executed).
\<close>

theorem empty_update_rejected:
  assumes "sets_no_field req"
  shows "server req ctx e d = (Inl (ActionInputError (input_issues req)), d) \<and>
         Custom ''At least one field must be provided to update.'' \<in> set (input_issues req)"
proof -
  have msg: "Custom at_least_one \<in> set (input_issues req)"
    using assms by (rule issues_of_empty_update)
  then have "input_issues req \<noteq> []"
    by auto
  then have "server req ctx e d = (Inl (ActionInputError (input_issues req)), d)"
    by (rule server_rejects_issues)
  with msg show ?thesis
    by (simp add: at_least_one_def)
qed

theorem empty_update_rejected_witness:
  "sets_no_field (UpdateStoryScene \<lparr>un_id = ''n1'', un_storyId = ''A'', un_chapterId = None,
       un_orderIndex = None, un_setting = None, un_goal = None, un_conflict = None,
       un_outcome = None, un_content = None\<rparr>) \<and>
   server (UpdateStoryScene \<lparr>un_id = ''n1'', un_storyId = ''A'', un_chapterId = None,
       un_orderIndex = None, un_setting = None, un_goal = None, un_conflict = None,
       un_outcome = None, un_content = None\<rparr>) ctx_u1 demo_env demo_db =
     (Inl (ActionInputError [Custom ''At least one field must be provided to update.'']),
      demo_db)"
  using empty_update_rejected [of
      "UpdateStoryScene \<lparr>un_id = ''n1'', un_storyId = ''A'', un_chapterId = None,
         un_orderIndex = None, un_setting = None, un_goal = None, un_conflict = None,
         un_outcome = None, un_content = None\<rparr>" ctx_u1 demo_env demo_db]
  by (simp add: schema_defs at_least_one_def)

section \<open>The order of the schema and the identity check\<close>

text \<open>
  Claim C7, as the code has it. The schema of an action is checked before its handler
  runs, and the handler's first step is the identity check. So for every action, payload
  and store, a call whose context resolves to no user fails without touching the store:
  with the schema's issues when the payload has any, and with UNAUTHORIZED when the
  payload passes the schema. The identity check precedes every ownership lookup and every
  statement of the datastore, but not the validation of the payload.
\<close>

theorem anonymous_caller_rejected:
  assumes "currentUser ctx = None"
  shows "server req ctx e d =
           (if input_issues req = []
            then (Inl (ActionError UNAUTHORIZED ''You must be signed in to perform this action.''), d)
            else (Inl (ActionInputError (input_issues req)), d))"
  using assms
  by (cases req) (simp_all add: server_eqs unauthorized_def del: server.simps)

theorem anonymous_caller_rejected_witness:
  "currentUser ctx_anonymous = None \<and>
   server (DeleteStoryChapter \<lparr>dc_id = ''c1'', dc_storyId = ''A''\<rparr>) ctx_anonymous demo_env demo_db =
     (Inl (ActionError UNAUTHORIZED ''You must be signed in to perform this action.''), demo_db) \<and>
   currentUser \<lparr>locals = None\<rparr> = None \<and>
   server ListStories \<lparr>locals = None\<rparr> demo_env demo_db =
     (Inl (ActionError UNAUTHORIZED ''You must be signed in to perform this action.''), demo_db)"
  using
    anonymous_caller_rejected [of ctx_anonymous
      "DeleteStoryChapter \<lparr>dc_id = ''c1'', dc_storyId = ''A''\<rparr>" demo_env demo_db]
    anonymous_caller_rejected [of "\<lparr>locals = None\<rparr>" ListStories demo_env demo_db]
  by (simp add: schema_defs ctx_anonymous_def currentUser_def)

text \<open>
  The claim as worded, with the identity check before the validation of the payload,
  fails: an anonymous call of updateStory that sets no field gets the schema's issue, not
  UNAUTHORIZED.
\<close>

theorem identity_check_not_first_counterexample:
  "currentUser ctx_anonymous = None \<and>
   server (UpdateStory \<lparr>us_id = ''A'', us_title = None, us_logline = None, us_genre = None,
       us_targetAudience = None, us_status = None, us_notes = None\<rparr>)
     ctx_anonymous demo_env demo_db =
     (Inl (ActionInputError [Custom ''At least one field must be provided to update.'']),
      demo_db) \<and>
   server (UpdateStory \<lparr>us_id = ''A'', us_title = None, us_logline = None, us_genre = None,
       us_targetAudience = None, us_status = None, us_notes = None\<rparr>)
     ctx_anonymous demo_env demo_db \<noteq>
     (Inl (ActionError UNAUTHORIZED ''You must be signed in to perform this action.''), demo_db)"
  by (simp add: server_eqs schema_defs at_least_one_def ctx_anonymous_def currentUser_def
      del: server.simps)

section \<open>Defaults of the create actions\<close>

text \<open>
  Claim C5. A successful createStoryAct, createStoryChapter or createStoryScene returns
  the row it appended to its table; when the payload omits \<^verbatim>\<open>orderIndex\<close> that row's
  \<^verbatim>\<open>orderIndex\<close> is 1, and when the payload omits \<^verbatim>\<open>actId\<close> (for a chapter) or
  \<^verbatim>\<open>chapterId\<close> (for a scene) that row's reference is absent.
\<close>

theorem create_defaults:
  "(server (CreateStoryAct a) ctx e d = (Inr x, d') \<longrightarrow>
      (\<exists>r. x = ActData (Some r) \<and> storyActs d' = storyActs d @ [r] \<and>
           (ca_orderIndex a = None \<longrightarrow> act_orderIndex r = 1))) \<and>
   (server (CreateStoryChapter c) ctx e d = (Inr x, d') \<longrightarrow>
      (\<exists>r. x = ChapterData (Some r) \<and> storyChapters d' = storyChapters d @ [r] \<and>
           (cc_orderIndex c = None \<longrightarrow> chapter_orderIndex r = 1) \<and>
           (cc_actId c = None \<longrightarrow> chapter_actId r = None))) \<and>
   (server (CreateStoryScene n) ctx e d = (Inr x, d') \<longrightarrow>
      (\<exists>r. x = SceneData (Some r) \<and> storyScenes d' = storyScenes d @ [r] \<and>
           (cn_orderIndex n = None \<longrightarrow> scene_orderIndex r = 1) \<and>
           (cn_chapterId n = None \<longrightarrow> scene_chapterId r = None)))"
proof (intro conjI impI)
  assume "server (CreateStoryAct a) ctx e d = (Inr x, d')"
  then show "\<exists>r. x = ActData (Some r) \<and> storyActs d' = storyActs d @ [r] \<and>
      (ca_orderIndex a = None \<longrightarrow> act_orderIndex r = 1)"
    by (auto simp add: server_CreateStoryAct mutate_tables createStoryAct_values_def
        simp del: server.simps split: if_splits option.splits)
next
  assume "server (CreateStoryChapter c) ctx e d = (Inr x, d')"
  then show "\<exists>r. x = ChapterData (Some r) \<and> storyChapters d' = storyChapters d @ [r] \<and>
      (cc_orderIndex c = None \<longrightarrow> chapter_orderIndex r = 1) \<and>
      (cc_actId c = None \<longrightarrow> chapter_actId r = None)"
    by (auto simp add: server_CreateStoryChapter mutate_tables createStoryChapter_values_def
        simp del: server.simps split: if_splits option.splits)
next
  assume "server (CreateStoryScene n) ctx e d = (Inr x, d')"
  then show "\<exists>r. x = SceneData (Some r) \<and> storyScenes d' = storyScenes d @ [r] \<and>
      (cn_orderIndex n = None \<longrightarrow> scene_orderIndex r = 1) \<and>
      (cn_chapterId n = None \<longrightarrow> scene_chapterId r = None)"
    by (auto simp add: server_CreateStoryScene mutate_tables createStoryScene_values_def
        simp del: server.simps split: if_splits option.splits)
qed

lemmas values_defs =
  createStory_values_def createStoryAct_values_def createStoryChapter_values_def
  createStoryScene_values_def

theorem create_defaults_witness:
  "server (CreateStoryAct \<lparr>ca_storyId = ''A'', ca_orderIndex = None, ca_title = None,
       ca_summary = None\<rparr>) ctx_u1 demo_env demo_db =
     (Inr (ActData (Some \<lparr>act_id = ''fresh'', act_storyId = ''A'', act_orderIndex = 1,
        act_title = None, act_summary = None, act_createdAt = 100\<rparr>)),
      demo_db\<lparr>storyActs := storyActs demo_db @
          [\<lparr>act_id = ''fresh'', act_storyId = ''A'', act_orderIndex = 1, act_title = None,
            act_summary = None, act_createdAt = 100\<rparr>],
        executed := 1\<rparr>) \<and>
   fst (server (CreateStoryChapter \<lparr>cc_storyId = ''A'', cc_actId = None, cc_orderIndex = None,
       cc_title = Some ''Two'', cc_povCharacter = None, cc_summary = None\<rparr>)
       ctx_u1 demo_env demo_db) =
     Inr (ChapterData (Some \<lparr>chapter_id = ''fresh'', chapter_storyId = ''A'',
        chapter_actId = None, chapter_orderIndex = 1, chapter_title = Some ''Two'',
        chapter_povCharacter = None, chapter_summary = None, chapter_createdAt = 100,
        chapter_updatedAt = 100\<rparr>)) \<and>
   fst (server (CreateStoryScene \<lparr>cn_storyId = ''A'', cn_chapterId = None, cn_orderIndex = None,
       cn_setting = None, cn_goal = None, cn_conflict = None, cn_outcome = None,
       cn_content = None\<rparr>) ctx_u1 demo_env demo_db) =
     Inr (SceneData (Some \<lparr>scene_id = ''fresh'', scene_storyId = ''A'', scene_chapterId = None,
        scene_orderIndex = 1, scene_setting = None, scene_goal = None, scene_conflict = None,
        scene_outcome = None, scene_content = None, scene_createdAt = 100,
        scene_updatedAt = 100\<rparr>))"
  using create_defaults [of
      "\<lparr>ca_storyId = ''A'', ca_orderIndex = None, ca_title = None, ca_summary = None\<rparr>"
      ctx_u1 demo_env demo_db _ _
      "\<lparr>cc_storyId = ''A'', cc_actId = None, cc_orderIndex = None,
        cc_title = Some ''Two'', cc_povCharacter = None, cc_summary = None\<rparr>"
      "\<lparr>cn_storyId = ''A'', cn_chapterId = None, cn_orderIndex = None,
        cn_setting = None, cn_goal = None, cn_conflict = None, cn_outcome = None,
        cn_content = None\<rparr>"]
  by (simp add: server_eqs schema_defs demo_defs values_defs del: server.simps)

section \<open>Deleting an act\<close>



section \<open>Listing\<close>




section \<open>Partial updates\<close>

lemma spread_case: "spread v f r = (case v of None \<Rightarrow> r | Some x \<Rightarrow> f x r)"
  by (cases v) simp_all

lemma updateStory_set_updated: "story_updated i now r (updateStory_set i now r)"
  by (simp add: story_updated_def updateStory_set_def spread_case split: option.splits)

lemma updateStoryAct_set_updated: "act_updated i r (updateStoryAct_set i r)"
  by (simp add: act_updated_def updateStoryAct_set_def spread_case split: option.splits)

lemma updateStoryChapter_set_updated: "chapter_updated i now r (updateStoryChapter_set i now r)"
  by (simp add: chapter_updated_def updateStoryChapter_set_def spread_case split: option.splits)

lemma updateStoryScene_set_updated: "scene_updated i now r (updateStoryScene_set i now r)"
  by (simp add: scene_updated_def updateStoryScene_set_def spread_case split: option.splits)

lemma list_all2_update:
  assumes "\<And>r. r \<in> set xs \<Longrightarrow> w r \<Longrightarrow> Q r (s r)"
  shows "list_all2 (\<lambda>r r'. if w r then Q r r' else r' = r) xs
           (map (\<lambda>r. if w r then s r else r) xs)"
  using assms by (induction xs) simp_all

lemma first_map_filter:
  "\<exists>x \<in> set xs. w x \<Longrightarrow>
   \<exists>y \<in> set xs. w y \<and> first (map s (filter w xs)) = Some (s y)"
  by (induction xs) auto

text \<open>
  Claim C4, as the code has it. After a successful updateStory, updateStoryAct,
  updateStoryChapter or updateStoryScene the action's table has the same rows in the same
  order, the other tables are unchanged, a row whose id is not the payload's id is
  unchanged, and in a row whose id is the payload's id every field the payload supplies
  has the supplied value and every field it omits has its former value, with one
  exception: a row of Stories, StoryChapters or StoryScenes also gets the time of the
  operation as its \<^verbatim>\<open>updatedAt\<close>. With exactly one field supplied, that field (and
  \<^verbatim>\<open>updatedAt\<close>, where the table has one) is all that changes.
\<close>

theorem partial_update_frame:
  "(server (UpdateStory s) ctx e d = (Inr x, d') \<longrightarrow>
      list_all2 (\<lambda>r r'. if story_id r = us_id s then story_updated s (newDate e) r r' else r' = r)
        (stories d) (stories d') \<and>
      same_except (Some StoriesTable) d d') \<and>
   (server (UpdateStoryAct a) ctx e d = (Inr x, d') \<longrightarrow>
      list_all2 (\<lambda>r r'. if act_id r = ua_id a then act_updated a r r' else r' = r)
        (storyActs d) (storyActs d') \<and>
      same_except (Some StoryActsTable) d d') \<and>
   (server (UpdateStoryChapter c) ctx e d = (Inr x, d') \<longrightarrow>
      list_all2
        (\<lambda>r r'. if chapter_id r = uc_id c then chapter_updated c (newDate e) r r' else r' = r)
        (storyChapters d) (storyChapters d') \<and>
      same_except (Some StoryChaptersTable) d d') \<and>
   (server (UpdateStoryScene n) ctx e d = (Inr x, d') \<longrightarrow>
      list_all2 (\<lambda>r r'. if scene_id r = un_id n then scene_updated n (newDate e) r r' else r' = r)
        (storyScenes d) (storyScenes d') \<and>
      same_except (Some StoryScenesTable) d d')"
proof (intro conjI impI)
  assume "server (UpdateStory s) ctx e d = (Inr x, d')"
  then have "d' = mutate Stories
      (map (\<lambda>r. if story_id r = us_id s then updateStory_set s (newDate e) r else r)) d"
    by (simp add: server_UpdateStory del: server.simps split: if_splits option.splits)
  then show
    "list_all2 (\<lambda>r r'. if story_id r = us_id s then story_updated s (newDate e) r r' else r' = r)
       (stories d) (stories d')"
    and "same_except (Some StoriesTable) d d'"
    by (simp_all add: mutate_tables same_except_def list_all2_update updateStory_set_updated)
next
  assume "server (UpdateStoryAct a) ctx e d = (Inr x, d')"
  then have "d' = mutate StoryActs
      (map (\<lambda>r. if act_id r = ua_id a then updateStoryAct_set a r else r)) d"
    by (simp add: server_UpdateStoryAct del: server.simps split: if_splits option.splits)
  then show
    "list_all2 (\<lambda>r r'. if act_id r = ua_id a then act_updated a r r' else r' = r)
       (storyActs d) (storyActs d')"
    and "same_except (Some StoryActsTable) d d'"
    by (simp_all add: mutate_tables same_except_def list_all2_update updateStoryAct_set_updated)
next
  assume "server (UpdateStoryChapter c) ctx e d = (Inr x, d')"
  then have "d' = mutate StoryChapters
      (map (\<lambda>r. if chapter_id r = uc_id c then updateStoryChapter_set c (newDate e) r else r)) d"
    by (simp add: server_UpdateStoryChapter del: server.simps split: if_splits option.splits)
  then show
    "list_all2
       (\<lambda>r r'. if chapter_id r = uc_id c then chapter_updated c (newDate e) r r' else r' = r)
       (storyChapters d) (storyChapters d')"
    and "same_except (Some StoryChaptersTable) d d'"
    by (simp_all add: mutate_tables same_except_def list_all2_update
        updateStoryChapter_set_updated)
next
  assume "server (UpdateStoryScene n) ctx e d = (Inr x, d')"
  then have "d' = mutate StoryScenes
      (map (\<lambda>r. if scene_id r = un_id n then updateStoryScene_set n (newDate e) r else r)) d"
    by (simp add: server_UpdateStoryScene del: server.simps split: if_splits option.splits)
  then show
    "list_all2 (\<lambda>r r'. if scene_id r = un_id n then scene_updated n (newDate e) r r' else r' = r)
       (storyScenes d) (storyScenes d')"
    and "same_except (Some StoryScenesTable) d d'"
    by (simp_all add: mutate_tables same_except_def list_all2_update
        updateStoryScene_set_updated)
qed

lemmas set_defs =
  updateStory_set_def updateStoryAct_set_def updateStoryChapter_set_def
  updateStoryScene_set_def

theorem partial_update_frame_witness:
  "server (UpdateStoryAct \<lparr>ua_id = ''a1'', ua_storyId = ''A'', ua_orderIndex = None,
       ua_title = None, ua_summary = Some ''The hero leaves home''\<rparr>)
     ctx_u1 demo_env demo_db =
     (Inr (ActData (Some \<lparr>act_id = ''a1'', act_storyId = ''A'', act_orderIndex = 1,
        act_title = Some ''Setup'', act_summary = Some ''The hero leaves home'',
        act_createdAt = 3\<rparr>)),
      demo_db\<lparr>storyActs :=
          [\<lparr>act_id = ''a1'', act_storyId = ''A'', act_orderIndex = 1,
            act_title = Some ''Setup'', act_summary = Some ''The hero leaves home'',
            act_createdAt = 3\<rparr>,
           \<lparr>act_id = ''b1'', act_storyId = ''B'', act_orderIndex = 1, act_title = None,
            act_summary = None, act_createdAt = 4\<rparr>],
        executed := 1\<rparr>) \<and>
   fst (server (UpdateStoryScene \<lparr>un_id = ''n1'', un_storyId = ''A'', un_chapterId = None,
       un_orderIndex = Some 4, un_setting = None, un_goal = None, un_conflict = None,
       un_outcome = None, un_content = None\<rparr>) ctx_u1 demo_env demo_db) =
     Inr (SceneData (Some \<lparr>scene_id = ''n1'', scene_storyId = ''A'',
        scene_chapterId = Some ''c1'', scene_orderIndex = 4, scene_setting = None,
        scene_goal = None, scene_conflict = None, scene_outcome = None,
        scene_content = Some ''Draft'', scene_createdAt = 6, scene_updatedAt = 100\<rparr>))"
  using partial_update_frame [of _ ctx_u1 demo_env demo_db _ _
      "\<lparr>ua_id = ''a1'', ua_storyId = ''A'', ua_orderIndex = None,
        ua_title = None, ua_summary = Some ''The hero leaves home''\<rparr>" _
      "\<lparr>un_id = ''n1'', un_storyId = ''A'', un_chapterId = None,
        un_orderIndex = Some 4, un_setting = None, un_goal = None, un_conflict = None,
        un_outcome = None, un_content = None\<rparr>"]
  by (simp add: server_eqs schema_defs demo_defs set_defs del: server.simps)

text \<open>
  The claim as worded, with the supplied field the only one that changes, fails on
  Stories, StoryChapters and StoryScenes: an updateStory that supplies only a title also
  moves the row's \<^verbatim>\<open>updatedAt\<close>, here from 1 to 100.
\<close>

theorem update_touches_updatedAt_counterexample:
  "map (\<lambda>r. (story_id r, story_title r, story_updatedAt r)) (stories demo_db) =
     [(''A'', ''Novel A'', 1), (''B'', ''Novel B'', 2)] \<and>
   fst (server (UpdateStory \<lparr>us_id = ''A'', us_title = Some ''Novel A2'', us_logline = None,
       us_genre = None, us_targetAudience = None, us_status = None, us_notes = None\<rparr>)
       ctx_u1 demo_env demo_db) =
     Inr (StoryData (Some \<lparr>story_id = ''A'', story_userId = ''u1'', story_title = ''Novel A2'',
        story_logline = None, story_genre = Some ''Fantasy'', story_targetAudience = None,
        story_status = None, story_notes = None, story_createdAt = 1,
        story_updatedAt = 100\<rparr>)) \<and>
   map (\<lambda>r. (story_id r, story_title r, story_updatedAt r))
     (stories (snd (server (UpdateStory \<lparr>us_id = ''A'', us_title = Some ''Novel A2'',
        us_logline = None, us_genre = None, us_targetAudience = None, us_status = None,
        us_notes = None\<rparr>) ctx_u1 demo_env demo_db))) =
     [(''A'', ''Novel A2'', 100), (''B'', ''Novel B'', 2)]"
  by (simp add: server_eqs schema_defs demo_defs set_defs del: server.simps)

section \<open>The \<^verbatim>\<open>updatedAt\<close> stamp\<close>

lemma updated_row:
  assumes "\<exists>y \<in> set xs. w y"
  shows "\<exists>y \<in> set xs. w y \<and> first (map s (filter w xs)) = Some (s y) \<and>
           s y \<in> set (map (\<lambda>r. if w r then s r else r) xs)"
proof -
  from first_map_filter [OF assms, of s]
  obtain y where y: "y \<in> set xs" "w y" "first (map s (filter w xs)) = Some (s y)"
    by blast
  then have "s y \<in> (\<lambda>r. if w r then s r else r) ` set xs"
    by force
  with y show ?thesis
    by auto
qed

lemma stamp_story:
  assumes "server (UpdateStory s) ctx e d = (Inr x, d')"
  shows "(\<exists>r. x = StoryData (Some r) \<and> r \<in> set (stories d') \<and> story_id r = us_id s \<and>
              story_updatedAt r = newDate e) \<and>
         (\<forall>r \<in> set (stories d'). story_id r = us_id s \<longrightarrow> story_updatedAt r = newDate e)"
proof -
  let ?w = "\<lambda>r. story_id r = us_id s" and ?s = "updateStory_set s (newDate e)"
  from assms obtain u :: user where own: "owns d (us_id s) (user_id u)"
    and x: "x = StoryData (first (map ?s (filter ?w (stories d))))"
    and d': "d' = mutate Stories (map (\<lambda>r. if ?w r then ?s r else r)) d"
    by (auto simp add: server_UpdateStory simp del: server.simps
        split: if_splits option.splits)
  have set: "story_id (?s r) = story_id r \<and> story_updatedAt (?s r) = newDate e" for r
    using updateStory_set_updated [of s "newDate e" r] by (simp add: story_updated_def)
  from own have "\<exists>y \<in> set (stories d). ?w y"
    by (auto simp: owns_def)
  from updated_row [OF this, of ?s] set x d' show ?thesis
    by (auto simp add: mutate_tables)
qed

lemma stamp_chapter:
  assumes "server (UpdateStoryChapter c) ctx e d = (Inr x, d')"
  shows "(\<exists>r. x = ChapterData (Some r) \<and> r \<in> set (storyChapters d') \<and>
              chapter_id r = uc_id c \<and> chapter_updatedAt r = newDate e) \<and>
         (\<forall>r \<in> set (storyChapters d').
            chapter_id r = uc_id c \<longrightarrow> chapter_updatedAt r = newDate e)"
proof -
  let ?w = "\<lambda>r. chapter_id r = uc_id c" and ?s = "updateStoryChapter_set c (newDate e)"
  from assms have has: "has_chapter d (uc_id c) (uc_storyId c)"
    and x: "x = ChapterData (first (map ?s (filter ?w (storyChapters d))))"
    and d': "d' = mutate StoryChapters (map (\<lambda>r. if ?w r then ?s r else r)) d"
    by (auto simp add: server_UpdateStoryChapter simp del: server.simps
        split: if_splits option.splits)
  have set: "chapter_id (?s r) = chapter_id r \<and> chapter_updatedAt (?s r) = newDate e" for r
    using updateStoryChapter_set_updated [of c "newDate e" r] by (simp add: chapter_updated_def)
  from has have "\<exists>y \<in> set (storyChapters d). ?w y"
    by (auto simp: has_chapter_def)
  from updated_row [OF this, of ?s] set x d' show ?thesis
    by (auto simp add: mutate_tables)
qed

lemma stamp_scene:
  assumes "server (UpdateStoryScene n) ctx e d = (Inr x, d')"
  shows "(\<exists>r. x = SceneData (Some r) \<and> r \<in> set (storyScenes d') \<and>
              scene_id r = un_id n \<and> scene_updatedAt r = newDate e) \<and>
         (\<forall>r \<in> set (storyScenes d').
            scene_id r = un_id n \<longrightarrow> scene_updatedAt r = newDate e)"
proof -
  let ?w = "\<lambda>r. scene_id r = un_id n" and ?s = "updateStoryScene_set n (newDate e)"
  from assms have has: "has_scene d (un_id n) (un_storyId n)"
    and x: "x = SceneData (first (map ?s (filter ?w (storyScenes d))))"
    and d': "d' = mutate StoryScenes (map (\<lambda>r. if ?w r then ?s r else r)) d"
    by (auto simp add: server_UpdateStoryScene simp del: server.simps
        split: if_splits option.splits)
  have set: "scene_id (?s r) = scene_id r \<and> scene_updatedAt (?s r) = newDate e" for r
    using updateStoryScene_set_updated [of n "newDate e" r] by (simp add: scene_updated_def)
  from has have "\<exists>y \<in> set (storyScenes d). ?w y"
    by (auto simp: has_scene_def)
  from updated_row [OF this, of ?s] set x d' show ?thesis
    by (auto simp add: mutate_tables)
qed

lemma stamp_created:
  "server (CreateStory cs) ctx e d = (Inr x, d') \<Longrightarrow>
     \<exists>r. x = StoryData (Some r) \<and> stories d' = stories d @ [r] \<and>
         story_updatedAt r = newDate e \<and> story_createdAt r = newDate e"
  "server (CreateStoryChapter cc) ctx e d = (Inr x, d') \<Longrightarrow>
     \<exists>r. x = ChapterData (Some r) \<and> storyChapters d' = storyChapters d @ [r] \<and>
         chapter_updatedAt r = newDate e \<and> chapter_createdAt r = newDate e"
  "server (CreateStoryScene cn) ctx e d = (Inr x, d') \<Longrightarrow>
     \<exists>r. x = SceneData (Some r) \<and> storyScenes d' = storyScenes d @ [r] \<and>
         scene_updatedAt r = newDate e \<and> scene_createdAt r = newDate e"
  by (auto simp add: server_CreateStory server_CreateStoryChapter server_CreateStoryScene
      mutate_tables createStory_values_def createStoryChapter_values_def
      createStoryScene_values_def
      simp del: server.simps split: if_splits option.splits)

lemma act_keeps_createdAt:
  assumes "server (UpdateStoryAct a) ctx e d = (Inr x, d')"
  shows "map act_createdAt (storyActs d') = map act_createdAt (storyActs d) \<and>
         same_except (Some StoryActsTable) d d'"
proof -
  from assms have d': "d' = mutate StoryActs
      (map (\<lambda>r. if act_id r = ua_id a then updateStoryAct_set a r else r)) d"
    by (simp add: server_UpdateStoryAct del: server.simps split: if_splits option.splits)
  have "act_createdAt (updateStoryAct_set a r) = act_createdAt r" for r
    using updateStoryAct_set_updated [of a r] by (simp add: act_updated_def)
  then have "map act_createdAt
      (map (\<lambda>r. if act_id r = ua_id a then updateStoryAct_set a r else r) (storyActs d)) =
      map act_createdAt (storyActs d)"
    by (induction "storyActs d") simp_all
  with d' show ?thesis
    by (simp add: mutate_tables same_except_def)
qed

text \<open>
  Claim C9. A successful createStory, createStoryChapter or createStoryScene returns the
  row it stored, whose \<^verbatim>\<open>updatedAt\<close> is the time of the operation. A successful
  updateStory, updateStoryChapter or updateStoryScene returns a stored row with the
  payload's id whose \<^verbatim>\<open>updatedAt\<close> is the time of the operation, and every stored row with
  that id has it. A successful updateStoryAct changes no timestamp: an act row has
  \<^verbatim>\<open>createdAt\<close> only, every act keeps its own, and the other tables keep their rows.
\<close>

theorem updatedAt_refreshed:
  "(server (CreateStory cs) ctx e d = (Inr x, d') \<longrightarrow>
      (\<exists>r. x = StoryData (Some r) \<and> stories d' = stories d @ [r] \<and>
           story_updatedAt r = newDate e \<and> story_createdAt r = newDate e)) \<and>
   (server (CreateStoryChapter cc) ctx e d = (Inr x, d') \<longrightarrow>
      (\<exists>r. x = ChapterData (Some r) \<and> storyChapters d' = storyChapters d @ [r] \<and>
           chapter_updatedAt r = newDate e \<and> chapter_createdAt r = newDate e)) \<and>
   (server (CreateStoryScene cn) ctx e d = (Inr x, d') \<longrightarrow>
      (\<exists>r. x = SceneData (Some r) \<and> storyScenes d' = storyScenes d @ [r] \<and>
           scene_updatedAt r = newDate e \<and> scene_createdAt r = newDate e)) \<and>
   (server (UpdateStory us) ctx e d = (Inr x, d') \<longrightarrow>
      (\<exists>r. x = StoryData (Some r) \<and> r \<in> set (stories d') \<and> story_id r = us_id us \<and>
           story_updatedAt r = newDate e) \<and>
      (\<forall>r \<in> set (stories d'). story_id r = us_id us \<longrightarrow> story_updatedAt r = newDate e)) \<and>
   (server (UpdateStoryChapter uc) ctx e d = (Inr x, d') \<longrightarrow>
      (\<exists>r. x = ChapterData (Some r) \<and> r \<in> set (storyChapters d') \<and>
           chapter_id r = uc_id uc \<and> chapter_updatedAt r = newDate e) \<and>
      (\<forall>r \<in> set (storyChapters d').
         chapter_id r = uc_id uc \<longrightarrow> chapter_updatedAt r = newDate e)) \<and>
   (server (UpdateStoryScene un) ctx e d = (Inr x, d') \<longrightarrow>
      (\<exists>r. x = SceneData (Some r) \<and> r \<in> set (storyScenes d') \<and>
           scene_id r = un_id un \<and> scene_updatedAt r = newDate e) \<and>
      (\<forall>r \<in> set (storyScenes d').
         scene_id r = un_id un \<longrightarrow> scene_updatedAt r = newDate e)) \<and>
   (server (UpdateStoryAct ua) ctx e d = (Inr x, d') \<longrightarrow>
      map act_createdAt (storyActs d') = map act_createdAt (storyActs d) \<and>
      same_except (Some StoryActsTable) d d')"
  using stamp_created [of _ ctx e d x d'] stamp_story [of us ctx e d x d']
    stamp_chapter [of uc ctx e d x d'] stamp_scene [of un ctx e d x d']
    act_keeps_createdAt [of ua ctx e d x d']
  by blast

theorem updatedAt_refreshed_witness:
  "fst (server (UpdateStoryChapter \<lparr>uc_id = ''c2'', uc_storyId = ''A'', uc_actId = Some ''a1'',
       uc_orderIndex = None, uc_title = None, uc_povCharacter = None, uc_summary = None\<rparr>)
       ctx_u1 demo_env demo_db) =
     Inr (ChapterData (Some \<lparr>chapter_id = ''c2'', chapter_storyId = ''A'',
        chapter_actId = Some ''a1'', chapter_orderIndex = 2, chapter_title = Some ''Two'',
        chapter_povCharacter = None, chapter_summary = None, chapter_createdAt = 7,
        chapter_updatedAt = 100\<rparr>)) \<and>
   map chapter_updatedAt
     (storyChapters (snd (server (UpdateStoryChapter \<lparr>uc_id = ''c2'', uc_storyId = ''A'',
        uc_actId = Some ''a1'', uc_orderIndex = None, uc_title = None, uc_povCharacter = None,
        uc_summary = None\<rparr>) ctx_u1 demo_env demo_db))) = [5, 100] \<and>
   fst (server (CreateStory \<lparr>cs_title = ''Novel C'', cs_logline = None, cs_genre = None,
       cs_targetAudience = None, cs_status = Some ''idea'', cs_notes = None\<rparr>)
       ctx_u2 demo_env demo_db) =
     Inr (StoryData (Some \<lparr>story_id = ''fresh'', story_userId = ''u2'',
        story_title = ''Novel C'', story_logline = None, story_genre = None,
        story_targetAudience = None, story_status = Some ''idea'', story_notes = None,
        story_createdAt = 100, story_updatedAt = 100\<rparr>)) \<and>
   map act_createdAt
     (storyActs (snd (server (UpdateStoryAct \<lparr>ua_id = ''b1'', ua_storyId = ''B'',
        ua_orderIndex = Some 2, ua_title = None, ua_summary = None\<rparr>)
        ctx_u2 demo_env demo_db))) = [3, 4] \<and>
   fst (server (UpdateStoryAct \<lparr>ua_id = ''b1'', ua_storyId = ''B'',
        ua_orderIndex = Some 2, ua_title = None, ua_summary = None\<rparr>)
        ctx_u2 demo_env demo_db) =
     Inr (ActData (Some \<lparr>act_id = ''b1'', act_storyId = ''B'', act_orderIndex = 2,
        act_title = None, act_summary = None, act_createdAt = 4\<rparr>))"
  using updatedAt_refreshed [of
      "\<lparr>cs_title = ''Novel C'', cs_logline = None, cs_genre = None,
        cs_targetAudience = None, cs_status = Some ''idea'', cs_notes = None\<rparr>"
      ctx_u2 demo_env demo_db]
  by (simp add: server_eqs schema_defs demo_defs set_defs values_defs del: server.simps)

section \<open>The ownership gate\<close>

text \<open>
  Claim C1. Take any create, update, delete or list action on an act, a chapter or a
  scene, with \<open>sid\<close> the \<^verbatim>\<open>storyId\<close> of its payload. If the action succeeds, the caller
  is a signed-in user, the store holds a story with id \<open>sid\<close> whose \<^verbatim>\<open>userId\<close> is that
  user's id, and the row an update or delete names is stored with \<^verbatim>\<open>storyId\<close> \<open>sid\<close>. If
  the caller is user \<open>u\<close> and the store holds no story with id \<open>sid\<close> owned by \<open>u\<close> (none
  with that id, or only other users'), the action fails and leaves the store as it was,
  and for every payload its schema accepts the failure is NOT_FOUND "Story not found.",
  whether or not the act, chapter or scene the payload names exists.
\<close>

theorem ownership_gate:
  assumes "request_storyId req = Some sid"
  shows "(server req ctx e d = (Inr x, d') \<longrightarrow>
            (\<exists>u. currentUser ctx = Some u \<and> owns d sid (user_id u)) \<and> target_in_story req d) \<and>
         (currentUser ctx = Some u \<and> \<not> owns d sid (user_id u) \<longrightarrow>
            (\<exists>err. server req ctx e d = (Inl err, d)) \<and>
            (input_issues req = [] \<longrightarrow>
               server req ctx e d = (Inl (ActionError NOT_FOUND ''Story not found.''), d)))"
  using assms
  by (cases req)
     (auto simp add: server_eqs not_found_def simp del: server.simps
       split: if_splits option.splits)

theorem ownership_gate_witness:
  "request_storyId (UpdateStoryAct \<lparr>ua_id = ''a1'', ua_storyId = ''A'', ua_orderIndex = None,
       ua_title = Some ''Mine now'', ua_summary = None\<rparr>) = Some ''A'' \<and>
   currentUser ctx_u2 = Some \<lparr>user_id = ''u2''\<rparr> \<and>
   \<not> owns demo_db ''A'' ''u2'' \<and>
   server (UpdateStoryAct \<lparr>ua_id = ''a1'', ua_storyId = ''A'', ua_orderIndex = None,
       ua_title = Some ''Mine now'', ua_summary = None\<rparr>) ctx_u2 demo_env demo_db =
     (Inl (ActionError NOT_FOUND ''Story not found.''), demo_db) \<and>
   server (ListStoryScenes \<lparr>ln_storyId = ''A'', ln_chapterId = Some ''nowhere''\<rparr>)
     ctx_u2 demo_env demo_db =
     (Inl (ActionError NOT_FOUND ''Story not found.''), demo_db) \<and>
   fst (server (DeleteStoryScene \<lparr>dn_id = ''n1'', dn_storyId = ''A''\<rparr>)
          ctx_u1 demo_env demo_db) = Inr NoData \<and>
   owns demo_db ''A'' ''u1'' \<and>
   target_in_story (DeleteStoryScene \<lparr>dn_id = ''n1'', dn_storyId = ''A''\<rparr>) demo_db"
  using
    ownership_gate [of
      "UpdateStoryAct \<lparr>ua_id = ''a1'', ua_storyId = ''A'', ua_orderIndex = None,
         ua_title = Some ''Mine now'', ua_summary = None\<rparr>" "''A''"
      ctx_u2 demo_env demo_db _ _ "\<lparr>user_id = ''u2''\<rparr>"]
    ownership_gate [of
      "DeleteStoryScene \<lparr>dn_id = ''n1'', dn_storyId = ''A''\<rparr>" "''A''"
      ctx_u1 demo_env demo_db NoData]
  by (simp add: server_eqs schema_defs demo_defs not_found_def del: server.simps)

section \<open>Ancestor references of chapters and scenes\<close>








text \<open>
  The empty string as \<^verbatim>\<open>actId\<close>: createStoryChapter tests \<^verbatim>\<open>if (input.actId)\<close>, which the
  empty string fails, so no act is looked up and the chapter is stored with \<^verbatim>\<open>actId\<close> the
  empty string; updateStoryChapter tests \<^verbatim>\<open>!== undefined\<close> and looks the act up.
\<close>

lemma empty_actId_on_create:
  "fst (server (CreateStoryChapter \<lparr>cc_storyId = ''A'', cc_actId = Some [],
       cc_orderIndex = None, cc_title = None, cc_povCharacter = None, cc_summary = None\<rparr>)
       ctx_u1 demo_env demo_db) =
     Inr (ChapterData (Some \<lparr>chapter_id = ''fresh'', chapter_storyId = ''A'',
        chapter_actId = Some [], chapter_orderIndex = 1, chapter_title = None,
        chapter_povCharacter = None, chapter_summary = None, chapter_createdAt = 100,
        chapter_updatedAt = 100\<rparr>))"
  by (simp add: server_eqs schema_defs demo_defs values_defs del: server.simps)

lemma empty_actId_on_update:
  "server (UpdateStoryChapter \<lparr>uc_id = ''c1'', uc_storyId = ''A'', uc_actId = Some [],
       uc_orderIndex = None, uc_title = None, uc_povCharacter = None, uc_summary = None\<rparr>)
     ctx_u1 demo_env demo_db =
     (Inl (ActionError NOT_FOUND ''Act not found.''), demo_db)"
  by (simp add: server_eqs schema_defs demo_defs not_found_def del: server.simps)

section \<open>The schema on a number that is not an integer\<close>

lemma three_halves_not_integer: "\<not> isInteger (3 / 2)"
proof -
  have "\<lfloor>3 / 2 :: rat\<rfloor> = 1"
    by (rule floor_unique) simp_all
  then show ?thesis
    by (simp add: isInteger_def)
qed

text \<open>\<^verbatim>\<open>z.number().int()\<close> refuses 3/2 as \<^verbatim>\<open>orderIndex\<close>; the handler is not reached.\<close>

lemma fractional_orderIndex_refused:
  "server (CreateStoryAct \<lparr>ca_storyId = ''A'', ca_orderIndex = Some (3 / 2), ca_title = None,
       ca_summary = None\<rparr>) ctx_u1 demo_env demo_db =
     (Inl (ActionInputError [NotInteger ''orderIndex'']), demo_db)"
  by (simp add: server_CreateStoryAct createStoryAct_input_def min1_def int_check_def
      three_halves_not_integer del: server.simps)

end
